theory Spec2Isabelle
  imports Complex_Main "HOL-Library.Word"
begin

section \<open>SE-Sync: the Riemannian Staircase controller and the saddle escape\<close>

text \<open>
  A shallow embedding of \<^verbatim>\<open>C++/SE-Sync/src/SESync.cpp\<close>: the function \<^verbatim>\<open>SESync\<close>
  (the staircase controller) and the function \<^verbatim>\<open>escape_saddle\<close>.

  Conventions of the model.
  \<^item> A \<^verbatim>\<open>double\<close> is a real number. Rounding, infinities and NaN are not represented;
    the one place where the source leaves the reals (the division by \<^verbatim>\<open>fabs(lambda_min)\<close>
    when \<^verbatim>\<open>lambda_min\<close> is zero) is a failure value of the model.
  \<^item> The level counter \<^verbatim>\<open>r\<close> and the relaxation rank are \<^verbatim>\<open>unsigned int\<close>: 32-bit words,
    whose \<open>+\<close> and \<open>-\<close> wrap around.
  \<^item> The manifold problem object, the trust-region solver \<^verbatim>\<open>TNT\<close>, the stopwatch and Eigen's
    norm are collaborators whose code is elsewhere: they are the fields of an environment
    record, total functions of their arguments (and of the problem object they are bound to).
  \<^item> A violated precondition of an Eigen block operation (an assertion of the library) is
    a failure value.
  \<^item> Console output and the setting of the number of threads are left out.
  \<^item> The state carries, besides the variables of the source, a log of the calls made on
    the collaborators, in program order, so that statements about which calls happen, and
    with which arguments, can be made.
\<close>

subsection \<open>Matrices\<close>

text \<open>
  An Eigen dynamic matrix: its column count and the list of its rows. The row count is the
  length of the list, so that a matrix with no row still has a column count, as in Eigen.
\<close>

type_synonym Vector = "real list"

record Matrix =
  ncols :: nat
  row_data :: "real list list"

definition nrows :: "Matrix \<Rightarrow> nat" where
  "nrows M = length (row_data M)"

definition msize :: "Matrix \<Rightarrow> nat" where
  "msize M = nrows M * ncols M"

text \<open>A default-constructed matrix has no rows and no columns.\<close>

definition Matrix_default :: Matrix where
  "Matrix_default = \<lparr>ncols = 0, row_data = []\<rparr>"

definition Zero :: "nat \<Rightarrow> nat \<Rightarrow> Matrix" where
  "Zero r c = \<lparr>ncols = c, row_data = replicate r (replicate c 0)\<rparr>"

definition scale :: "real \<Rightarrow> Matrix \<Rightarrow> Matrix" where
  "scale a M = M\<lparr>row_data := map (map (\<lambda>x. a * x)) (row_data M)\<rparr>"

datatype failure =
    EigenAssertion
  | DivisionByZero

text \<open>
  \<^verbatim>\<open>A.topRows(k) = B\<close>: the block is the first \<open>k\<close> rows of \<open>A\<close>; Eigen requires that it
  exists and that \<open>B\<close> has its shape.
\<close>

definition assign_topRows :: "nat \<Rightarrow> Matrix \<Rightarrow> Matrix \<Rightarrow> failure + Matrix" where
  "assign_topRows k A B =
     (if k \<le> nrows A \<and> nrows B = k \<and> ncols B = ncols A
      then Inr (A\<lparr>row_data := row_data B @ drop k (row_data A)\<rparr>)
      else Inl EigenAssertion)"

text \<open>
  \<^verbatim>\<open>A.bottomRows<1>() = v.transpose()\<close>: the block is the last row of \<open>A\<close>; Eigen requires
  that \<open>A\<close> has a row and that \<open>v\<close> has as many entries as \<open>A\<close> has columns.
\<close>

definition assign_bottomRow :: "Matrix \<Rightarrow> Vector \<Rightarrow> failure + Matrix" where
  "assign_bottomRow A v =
     (if 1 \<le> nrows A \<and> length v = ncols A
      then Inr (A\<lparr>row_data := butlast (row_data A) @ [v]\<rparr>)
      else Inl EigenAssertion)"

text \<open>
  \<^verbatim>\<open>M.block(i, j, p, q)\<close>: the \<open>p\<close> rows from row \<open>i\<close> and the \<open>q\<close> columns from column \<open>j\<close>;
  Eigen requires the block to lie inside \<open>M\<close>.
\<close>

definition block :: "Matrix \<Rightarrow> nat \<Rightarrow> nat \<Rightarrow> nat \<Rightarrow> nat \<Rightarrow> failure + Matrix" where
  "block M i j p q =
     (if i + p \<le> nrows M \<and> j + q \<le> ncols M
      then Inr \<lparr>ncols = q, row_data = map (\<lambda>row. take q (drop j row)) (take p (drop i (row_data M)))\<rparr>
      else Inl EigenAssertion)"

subsection \<open>Options, results and the problem object\<close>

text \<open>
  Modelled from the spec: the enumerations and the structures of options, of solver
  parameters and of results are declared in headers outside the source file. The spec
  names the four terminal statuses, the options (starting rank, maximum rank, the
  tolerances, the budget and the vector count of the eigenvalue solver) and the contents
  of the result; the records below have the members that the source file reads or writes,
  under the names it uses, with the types of their uses (\<^verbatim>\<open>unsigned int\<close> for the two
  ranks, which the loop counter is compared with).
\<close>

datatype Formulation = Simplified | Explicit

datatype Preconditioner = None_Preconditioner | Jacobi | IncompleteCholesky

datatype SESyncStatus = GLOBAL_OPT | SADDLE_POINT | EIG_IMPRECISION | RS_ITER_LIMIT

typedecl RelativePoseMeasurement

record SESyncOpts =
  formulation :: Formulation
  r0 :: "32 word"
  rmax :: "32 word"
  num_Lanczos_vectors :: nat
  max_eig_iterations :: nat
  min_eig_num_tol :: real
  use_Cholesky :: bool
  use_chordal_initialization :: bool
  log_iterates :: bool
  num_threads :: nat
  grad_norm_tol :: real
  rel_func_decrease_tol :: real
  stepsize_tol :: real
  max_iterations :: nat
  max_tCG_iterations :: nat
  precon :: Preconditioner
  verbose :: bool

record TNTParams =
  gradient_tolerance :: real
  preconditioned_gradient_tolerance :: real
  relative_decrease_tolerance :: real
  stepsize_tolerance :: real
  max_iterations_TNT :: nat
  max_TPCG_iterations :: nat
  verbose_TNT :: bool

record TNTResult =
  TNT_x :: Matrix
  TNT_f :: real
  TNT_objective_values :: "real list"
  TNT_gradient_norms :: "real list"
  TNT_time :: "real list"
  TNT_elapsed_time :: real

record SESyncResult =
  status :: SESyncStatus
  iterates :: "Matrix list"
  Yopt :: Matrix
  SDPval :: real
  gradnorm :: real
  function_values :: "real list list"
  gradient_norms :: "real list list"
  elapsed_optimization_times :: "real list list"
  lambda_min :: real
  v_min :: Vector
  minimum_eigenvalues :: "real list"
  minimum_eigenvalue_computation_times :: "real list"
  xhat :: Matrix
  Fxhat :: real
  initialization_time :: real
  total_computation_time :: real

text \<open>
  Modelled from the spec: the class \<^verbatim>\<open>SESyncProblem\<close> is declared and implemented outside
  the source file. The spec describes it as a mutable problem handle with an active
  (relaxation) rank. The model keeps the arguments of the constructor and the rank.
\<close>

record SESyncProblem =
  problem_measurements :: "RelativePoseMeasurement list"
  problem_formulation :: Formulation
  problem_use_Cholesky :: bool
  problem_precon :: Preconditioner
  relaxation_rank :: "32 word"

text \<open>
  Modelled from the spec: the constructor of \<^verbatim>\<open>SESyncProblem\<close>. The rank of a freshly
  constructed problem is not known; it is an argument here.
\<close>

definition SESyncProblem_new ::
  "RelativePoseMeasurement list \<Rightarrow> Formulation \<Rightarrow> bool \<Rightarrow> Preconditioner \<Rightarrow> 32 word \<Rightarrow> SESyncProblem" where
  "SESyncProblem_new ms fm ch pc rk =
     \<lparr>problem_measurements = ms, problem_formulation = fm, problem_use_Cholesky = ch,
      problem_precon = pc, relaxation_rank = rk\<rparr>"

text \<open>
  Modelled from the spec: the rank mutation \<^verbatim>\<open>set_relaxation_rank\<close>, which overwrites the
  active rank; the accessor \<^verbatim>\<open>relaxation_rank()\<close> is the field.
\<close>

definition set_relaxation_rank :: "32 word \<Rightarrow> SESyncProblem \<Rightarrow> SESyncProblem" where
  "set_relaxation_rank rk P = P\<lparr>relaxation_rank := rk\<rparr>"

subsection \<open>The collaborators\<close>

text \<open>
  The numerical methods of the problem object (each takes the object, whose rank is part
  of its state), the solver and the measured durations. \<open>TNT\<close> receives what the closures
  and arguments of the call give it: the problem the closures are bound to, whether a
  preconditioner and a user function are passed, the parameters, the initial iterate, the
  gradient cache and the list of logged iterates; it returns its result and the new
  contents of the cache and of the list. \<open>compute_S_minus_Lambda_min_eig\<close> receives the
  current contents of its two output arguments and returns the convergence flag and their
  new contents. \<open>random_sample\<close> is the sample that the run draws. \<open>indeterminate\<close> is the
  value of a \<^verbatim>\<open>double\<close> member that was never assigned.
\<close>

record env =
  indeterminate :: real
  fresh_rank :: "32 word"
  TNT :: "SESyncProblem \<Rightarrow> bool \<Rightarrow> TNTParams \<Rightarrow> bool \<Rightarrow> Matrix \<Rightarrow> Matrix \<Rightarrow> Matrix list
            \<Rightarrow> TNTResult \<times> Matrix \<times> Matrix list"
  evaluate_objective :: "SESyncProblem \<Rightarrow> Matrix \<Rightarrow> real"
  Riemannian_gradient :: "SESyncProblem \<Rightarrow> Matrix \<Rightarrow> Matrix"
  matrix_norm :: "Matrix \<Rightarrow> real"
  retract :: "SESyncProblem \<Rightarrow> Matrix \<Rightarrow> Matrix \<Rightarrow> Matrix"
  round_solution :: "SESyncProblem \<Rightarrow> Matrix \<Rightarrow> Matrix"
  chordal_initialization :: "SESyncProblem \<Rightarrow> Matrix"
  random_sample :: "SESyncProblem \<Rightarrow> Matrix"
  compute_S_minus_Lambda_min_eig ::
    "SESyncProblem \<Rightarrow> Matrix \<Rightarrow> real \<Rightarrow> Vector \<Rightarrow> nat \<Rightarrow> real \<Rightarrow> nat \<Rightarrow> bool \<times> real \<times> Vector"
  num_poses :: "SESyncProblem \<Rightarrow> nat"
  dimension :: "SESyncProblem \<Rightarrow> nat"
  eig_elapsed_time :: "32 word \<Rightarrow> real"
  initialization_elapsed_time :: real
  total_elapsed_time :: real

text \<open>
  The log: one entry per call on a collaborator, with its arguments. The entry of the
  solver records the initial iterate and the iterate returned, the entry of the eigenvalue
  computation the matrix, the flag returned and the eigenvalue returned, and the two
  entries of \<^verbatim>\<open>escape_saddle\<close> its arguments and its returned flag. The accessors
  (\<^verbatim>\<open>relaxation_rank\<close>, \<^verbatim>\<open>num_poses\<close>, \<^verbatim>\<open>dimension\<close>) are not logged.
\<close>

datatype call =
    Call_set_relaxation_rank "32 word"
  | Call_chordal_initialization
  | Call_random_sample
  | Call_evaluate_objective Matrix
  | Call_Riemannian_gradient Matrix
  | Call_TNT Matrix Matrix
  | Call_min_eig Matrix bool real
  | Call_retract Matrix Matrix
  | Call_round_solution Matrix
  | Enter_escape_saddle Matrix real Vector real
  | Leave_escape_saddle bool

subsection \<open>\<^verbatim>\<open>escape_saddle\<close>\<close>

definition alpha_min :: real where
  "alpha_min = 1 / 1000000"

text \<open>
  The \<^verbatim>\<open>do ... while\<close> loop of the line search (lines 492 to 507). The argument \<open>alpha\<close> is the step length
  before the halving that opens the body; the result is the final values of
  \<^verbatim>\<open>escape_success\<close> and \<^verbatim>\<open>Ytest\<close>, and the log.
\<close>

function line_search ::
  "env \<Rightarrow> SESyncProblem \<Rightarrow> real \<Rightarrow> Matrix \<Rightarrow> Matrix \<Rightarrow> real \<Rightarrow> real \<Rightarrow> call list
     \<Rightarrow> bool \<times> Matrix \<times> call list" where
  "line_search E P FY Y_augmented Ydot gradient_tol alpha lg =
     (let alpha' = alpha / 2;
          Ytest = retract E P Y_augmented (scale alpha' Ydot);
          FY_test = evaluate_objective E P Ytest;
          FY_test_gradnorm = matrix_norm E (Riemannian_gradient E P Ytest);
          lg' = lg @ [Call_retract Y_augmented (scale alpha' Ydot),
                      Call_evaluate_objective Ytest, Call_Riemannian_gradient Ytest];
          escape_success = (FY_test < FY \<and> FY_test_gradnorm > gradient_tol)
      in if \<not> escape_success \<and> alpha' > alpha_min
         then line_search E P FY Y_augmented Ydot gradient_tol alpha' lg'
         else (escape_success, Ytest, lg'))"
  by pat_completeness auto
termination
proof (relation "measure (\<lambda>(E, P, FY, Ya, Yd, tol, alpha, lg). nat \<lfloor>alpha * 1000000\<rfloor>)")
  show "wf (measure (\<lambda>(E, P, FY, Ya, Yd, tol, alpha, lg). nat \<lfloor>alpha * 1000000\<rfloor>))"
    by simp
next
  fix E :: env and P :: SESyncProblem and FY :: real and Y_augmented Ydot :: Matrix
    and gradient_tol alpha :: real and lg :: "call list"
    and x xa xb xc :: real and xd :: "call list" and xe :: bool
  assume a: "x = alpha / 2" and c: "\<not> xe \<and> alpha_min < x"
  from a c have big: "2 < alpha * 1000000"
    by (simp add: alpha_min_def)
  have "\<lfloor>x * 1000000\<rfloor> \<le> x * 1000000"
    by simp
  also have "\<dots> < alpha * 1000000 - 1"
    using a big by simp
  also have "\<dots> < \<lfloor>alpha * 1000000\<rfloor>"
    by linarith
  finally have lt: "\<lfloor>x * 1000000\<rfloor> < \<lfloor>alpha * 1000000\<rfloor>"
    by simp
  have "0 < \<lfloor>alpha * 1000000\<rfloor>"
    using big by linarith
  with lt have "nat \<lfloor>x * 1000000\<rfloor> < nat \<lfloor>alpha * 1000000\<rfloor>"
    by linarith
  then show "((E, P, FY, Y_augmented, Ydot, gradient_tol, x, xd), E, P, FY, Y_augmented, Ydot, gradient_tol, alpha, lg)
       \<in> measure (\<lambda>(E, P, FY, Ya, Yd, tol, alpha, lg). nat \<lfloor>alpha * 1000000\<rfloor>)"
    by simp
qed

declare line_search.simps [simp del]

text \<open>
  \<^verbatim>\<open>escape_saddle\<close> (lines 452 to 517). The output argument \<^verbatim>\<open>Yplus\<close> is passed in and returned: the
  source assigns it only on success. The step length \<^verbatim>\<open>2 * 100 * gradient_tolerance /
  fabs(lambda_min)\<close> is not a real number when \<^verbatim>\<open>lambda_min\<close> is zero.
\<close>

definition escape_saddle ::
  "env \<Rightarrow> SESyncProblem \<Rightarrow> Matrix \<Rightarrow> real \<Rightarrow> Vector \<Rightarrow> real \<Rightarrow> Matrix \<Rightarrow> call list
     \<Rightarrow> failure + (bool \<times> Matrix \<times> call list)" where
  "escape_saddle E P Ysaddle lam v gradient_tol Yplus lg =
     (let FY = evaluate_objective E P Ysaddle;
          r = relaxation_rank P
      in case assign_topRows (unat (r - 1)) (Zero (unat r) (ncols Ysaddle)) Ysaddle of
           Inl e \<Rightarrow> Inl e
         | Inr Y_augmented \<Rightarrow>
             (case assign_bottomRow (Zero (unat r) (ncols Ysaddle)) v of
                Inl e \<Rightarrow> Inl e
              | Inr Ydot \<Rightarrow>
                  if lam = 0 then Inl DivisionByZero
                  else
                    (let alpha = 2 * 100 * gradient_tol / \<bar>lam\<bar>;
                         (escape_success, Ytest, lg') =
                            line_search E P FY Y_augmented Ydot gradient_tol alpha
                              (lg @ [Enter_escape_saddle Ysaddle lam v gradient_tol,
                                     Call_evaluate_objective Ysaddle])
                     in if escape_success
                        then Inr (True, Ytest, lg' @ [Leave_escape_saddle True])
                        else Inr (False, Yplus, lg' @ [Leave_escape_saddle False]))))"

subsection \<open>\<^verbatim>\<open>SESync\<close>\<close>

text \<open>
  The state of the controller: the result structure under construction, the current
  iterate \<^verbatim>\<open>Y\<close>, the gradient cache, the problem object, and the log.
\<close>

record SESyncState = SESyncResult +
  Y_cur :: Matrix
  NablaF_Y :: Matrix
  problem :: SESyncProblem
  calls :: "call list"

definition TNT_params :: "SESyncOpts \<Rightarrow> TNTParams" where
  "TNT_params options =
     \<lparr>gradient_tolerance = grad_norm_tol options,
      preconditioned_gradient_tolerance = 0,
      relative_decrease_tolerance = rel_func_decrease_tol options,
      stepsize_tolerance = stepsize_tol options,
      max_iterations_TNT = max_iterations options,
      max_TPCG_iterations = max_tCG_iterations options,
      verbose_TNT = verbose options\<rparr>"

text \<open>
  Everything before the staircase loop (lines 15 to 260): the declarations, the
  construction of the problem at rank \<^verbatim>\<open>r0\<close>, the choice of the initial iterate, and the
  evaluation of the objective at it that the verbose mode prints.
\<close>

definition SESync_setup ::
  "env \<Rightarrow> RelativePoseMeasurement list \<Rightarrow> SESyncOpts \<Rightarrow> Matrix \<Rightarrow> SESyncState" where
  "SESync_setup E ms options Y0 =
     (let P = set_relaxation_rank (r0 options)
                (SESyncProblem_new ms (formulation options) (use_Cholesky options)
                   (precon options) (fresh_rank E));
          lg = [Call_set_relaxation_rank (r0 options)];
          (Yinit, lg1) =
             (if msize Y0 \<noteq> 0 then (Y0, lg)
              else if use_chordal_initialization options
                   then (chordal_initialization E P, lg @ [Call_chordal_initialization])
                   else (random_sample E P, lg @ [Call_random_sample]));
          lg2 = (if verbose options then lg1 @ [Call_evaluate_objective Yinit] else lg1)
      in \<lparr>status = RS_ITER_LIMIT,
          iterates = [],
          Yopt = Matrix_default,
          SDPval = indeterminate E,
          gradnorm = indeterminate E,
          function_values = [],
          gradient_norms = [],
          elapsed_optimization_times = [],
          lambda_min = indeterminate E,
          v_min = [],
          minimum_eigenvalues = [],
          minimum_eigenvalue_computation_times = [],
          xhat = Matrix_default,
          Fxhat = indeterminate E,
          initialization_time = initialization_elapsed_time E,
          total_computation_time = indeterminate E,
          Y_cur = Yinit,
          NablaF_Y = Matrix_default,
          problem = P,
          calls = lg2\<rparr>)"

text \<open>
  The call of the solver at one level, and the recording of its results (lines 276 to
  295).
\<close>

definition run_TNT :: "env \<Rightarrow> SESyncOpts \<Rightarrow> SESyncState \<Rightarrow> SESyncState" where
  "run_TNT E options s =
     (let (TNTResults, NablaF', its) =
             TNT E (problem s) (precon options \<noteq> None_Preconditioner) (TNT_params options)
               (log_iterates options) (Y_cur s) (NablaF_Y s) (iterates s);
          Yo = TNT_x TNTResults
      in s\<lparr>iterates := its,
           Yopt := Yo,
           SDPval := TNT_f TNTResults,
           gradnorm := matrix_norm E (Riemannian_gradient E (problem s) Yo),
           function_values := function_values s @ [TNT_objective_values TNTResults],
           gradient_norms := gradient_norms s @ [TNT_gradient_norms TNTResults],
           elapsed_optimization_times := elapsed_optimization_times s @ [TNT_time TNTResults],
           NablaF_Y := NablaF',
           calls := calls s @ [Call_TNT (Y_cur s) Yo, Call_Riemannian_gradient Yo]\<rparr>)"

text \<open>
  The minimum-eigenvalue computation at one level (lines 312 to 317): the flag it returns,
  and the state with the two output arguments written.
\<close>

definition check_second_order :: "env \<Rightarrow> SESyncOpts \<Rightarrow> SESyncState \<Rightarrow> bool \<times> SESyncState" where
  "check_second_order E options s =
     (let (eigenvalue_convergence, lam, v) =
             compute_S_minus_Lambda_min_eig E (problem s) (Yopt s) (lambda_min s) (v_min s)
               (max_eig_iterations options) (min_eig_num_tol options)
               (num_Lanczos_vectors options)
      in (eigenvalue_convergence,
          s\<lparr>lambda_min := lam, v_min := v,
            calls := calls s @ [Call_min_eig (Yopt s) eigenvalue_convergence lam]\<rparr>))"

text \<open>The recording of a converged eigenvalue computation at level \<open>r\<close> (lines 328 to 331).\<close>

definition record_eigenvalue :: "env \<Rightarrow> 32 word \<Rightarrow> SESyncState \<Rightarrow> SESyncState" where
  "record_eigenvalue E r s =
     s\<lparr>minimum_eigenvalues := minimum_eigenvalues s @ [lambda_min s],
       minimum_eigenvalue_computation_times :=
         minimum_eigenvalue_computation_times s @ [eig_elapsed_time E r]\<rparr>"

text \<open>The call \<^verbatim>\<open>problem.set_relaxation_rank(r + 1)\<close> that precedes the escape (line 358).\<close>

definition augment_rank :: "32 word \<Rightarrow> SESyncState \<Rightarrow> SESyncState" where
  "augment_rank r s =
     s\<lparr>problem := set_relaxation_rank (r + 1) (problem s),
       calls := calls s @ [Call_set_relaxation_rank (r + 1)]\<rparr>"

datatype loop_control = Break | Continue

text \<open>
  One execution of the body of the staircase loop, at level \<open>r\<close> (lines 262 to 376): the
  result says whether the loop goes on or was left by a \<^verbatim>\<open>break\<close>.
\<close>

definition staircase_level ::
  "env \<Rightarrow> SESyncOpts \<Rightarrow> 32 word \<Rightarrow> SESyncState \<Rightarrow> failure + (loop_control \<times> SESyncState)" where
  "staircase_level E options r s =
     (let (eigenvalue_convergence, s1) = check_second_order E options (run_TNT E options s)
      in if \<not> eigenvalue_convergence
         then Inr (Break, s1\<lparr>status := EIG_IMPRECISION\<rparr>)
         else
           (let s2 = record_eigenvalue E r s1
            in if lambda_min s2 > - min_eig_num_tol options
               then Inr (Break, s2\<lparr>status := GLOBAL_OPT\<rparr>)
               else
                 (let s3 = augment_rank r s2
                  in case escape_saddle E (problem s3) (Yopt s3) (lambda_min s3) (v_min s3)
                            (grad_norm_tol options) Matrix_default (calls s3) of
                       Inl e \<Rightarrow> Inl e
                     | Inr (escape_success, Yplus, lg) \<Rightarrow>
                         if escape_success
                         then Inr (Continue, s3\<lparr>Y_cur := Yplus, calls := lg\<rparr>)
                         else Inr (Break, s3\<lparr>status := SADDLE_POINT, calls := lg\<rparr>))))"

text \<open>
  The loop \<^verbatim>\<open>for (unsigned int r = options.r0; r <= options.rmax; r++)\<close>. With
  \<^verbatim>\<open>rmax\<close> the largest \<^verbatim>\<open>unsigned int\<close> the condition never fails and the increment
  wraps around, so the loop need not end: the result is optional.
\<close>

partial_function (option) staircase ::
  "env \<Rightarrow> SESyncOpts \<Rightarrow> 32 word \<Rightarrow> SESyncState \<Rightarrow> (failure + SESyncState) option" where
  "staircase E options r s =
     (if r \<le> rmax options
      then (case staircase_level E options r s of
              Inl e \<Rightarrow> Some (Inl e)
            | Inr (Break, s') \<Rightarrow> Some (Inr s')
            | Inr (Continue, s') \<Rightarrow> staircase E options (r + 1) s')
      else Some (Inr s))"

text \<open>
  The post-processing (lines 410 to 428): the rounding and the objective value of the
  rounded solution.
\<close>

definition SESync_finish :: "env \<Rightarrow> SESyncOpts \<Rightarrow> SESyncState \<Rightarrow> failure + SESyncState" where
  "SESync_finish E options s =
     (let xh = round_solution E (problem s) (Yopt s);
          s1 = s\<lparr>xhat := xh, calls := calls s @ [Call_round_solution (Yopt s)]\<rparr>
      in if formulation options = Simplified
         then (case block xh 0 (num_poses E (problem s1)) (dimension E (problem s1))
                      (dimension E (problem s1) * num_poses E (problem s1)) of
                 Inl e \<Rightarrow> Inl e
               | Inr R \<Rightarrow>
                   Inr (s1\<lparr>Fxhat := evaluate_objective E (problem s1) R,
                           total_computation_time := total_elapsed_time E,
                           calls := calls s1 @ [Call_evaluate_objective R]\<rparr>))
         else Inr (s1\<lparr>Fxhat := evaluate_objective E (problem s1) xh,
                      total_computation_time := total_elapsed_time E,
                      calls := calls s1 @ [Call_evaluate_objective xh]\<rparr>))"

text \<open>
  The whole run, with the final state (the result structure, the problem object and the
  log), and \<^verbatim>\<open>SESync\<close> itself, which returns the result structure.
\<close>

definition SESync_run ::
  "env \<Rightarrow> RelativePoseMeasurement list \<Rightarrow> SESyncOpts \<Rightarrow> Matrix \<Rightarrow> (failure + SESyncState) option" where
  "SESync_run E ms options Y0 =
     (case staircase E options (r0 options) (SESync_setup E ms options Y0) of
        None \<Rightarrow> None
      | Some (Inl e) \<Rightarrow> Some (Inl e)
      | Some (Inr s) \<Rightarrow> Some (SESync_finish E options s))"

definition SESync ::
  "env \<Rightarrow> RelativePoseMeasurement list \<Rightarrow> SESyncOpts \<Rightarrow> Matrix \<Rightarrow> (failure + SESyncResult) option" where
  "SESync E ms options Y0 =
     map_option (map_sum id SESyncResult.truncate) (SESync_run E ms options Y0)"

subsection \<open>Reading the log\<close>

text \<open>
  What a log says about a run: \<open>collect f\<close> gathers, in order, what \<open>f\<close> extracts from
  the entries.
\<close>

definition collect :: "(call \<Rightarrow> 'a list) \<Rightarrow> call list \<Rightarrow> 'a list" where
  "collect f lg = concat (map f lg)"

fun TNT_seed :: "call \<Rightarrow> Matrix list" where
  "TNT_seed (Call_TNT seed x) = [seed]"
| "TNT_seed _ = []"

fun TNT_output :: "call \<Rightarrow> Matrix list" where
  "TNT_output (Call_TNT seed x) = [x]"
| "TNT_output _ = []"

fun min_eig_result :: "call \<Rightarrow> (bool \<times> real) list" where
  "min_eig_result (Call_min_eig M conv lam) = [(conv, lam)]"
| "min_eig_result _ = []"

fun escape_lambda :: "call \<Rightarrow> real list" where
  "escape_lambda (Enter_escape_saddle M lam v tol) = [lam]"
| "escape_lambda _ = []"

fun escape_result :: "call \<Rightarrow> bool list" where
  "escape_result (Leave_escape_saddle ok) = [ok]"
| "escape_result _ = []"

fun initialization_call :: "call \<Rightarrow> call list" where
  "initialization_call Call_chordal_initialization = [Call_chordal_initialization]"
| "initialization_call Call_random_sample = [Call_random_sample]"
| "initialization_call _ = []"

fun retract_call :: "call \<Rightarrow> (Matrix \<times> Matrix) list" where
  "retract_call (Call_retract B V) = [(B, V)]"
| "retract_call _ = []"

fun round_solution_call :: "call \<Rightarrow> Matrix list" where
  "round_solution_call (Call_round_solution M) = [M]"
| "round_solution_call _ = []"

fun set_rank_call :: "call \<Rightarrow> 32 word list" where
  "set_rank_call (Call_set_relaxation_rank rk) = [rk]"
| "set_rank_call _ = []"

fun is_trial_call :: "call \<Rightarrow> bool" where
  "is_trial_call (Call_retract B V) = True"
| "is_trial_call (Call_evaluate_objective M) = True"
| "is_trial_call (Call_Riemannian_gradient M) = True"
| "is_trial_call _ = False"

subsection \<open>The line search, trial by trial\<close>

text \<open>
  The \<open>k\<close>-th trial (counted from 0) of a search started at \<open>alpha\<close> uses the step length
  \<open>alpha / 2 ^ (k + 1)\<close>; its trial point is the retraction of the base point along the
  scaled direction; a trial point is acceptable when its objective value is below \<open>FY\<close>
  and the norm of its Riemannian gradient is above the tolerance.
\<close>

definition step_length :: "real \<Rightarrow> nat \<Rightarrow> real" where
  "step_length alpha k = alpha / 2 ^ Suc k"

definition trial_point :: "env \<Rightarrow> SESyncProblem \<Rightarrow> Matrix \<Rightarrow> Matrix \<Rightarrow> real \<Rightarrow> Matrix" where
  "trial_point E P Y_augmented Ydot a = retract E P Y_augmented (scale a Ydot)"

definition acceptable :: "env \<Rightarrow> SESyncProblem \<Rightarrow> real \<Rightarrow> real \<Rightarrow> Matrix \<Rightarrow> bool" where
  "acceptable E P FY gradient_tol Ytest =
     (evaluate_objective E P Ytest < FY \<and>
      matrix_norm E (Riemannian_gradient E P Ytest) > gradient_tol)"

definition trial_calls :: "env \<Rightarrow> SESyncProblem \<Rightarrow> Matrix \<Rightarrow> Matrix \<Rightarrow> real \<Rightarrow> call list" where
  "trial_calls E P Y_augmented Ydot a =
     [Call_retract Y_augmented (scale a Ydot),
      Call_evaluate_objective (trial_point E P Y_augmented Ydot a),
      Call_Riemannian_gradient (trial_point E P Y_augmented Ydot a)]"

text \<open>
  The two matrices of the escape, as the specification words them: the saddle point with
  a row of zeros appended, and the matrix with one more row than the saddle point that is
  zero except for its last row, the eigenvector.
\<close>

definition append_zero_row :: "Matrix \<Rightarrow> Matrix" where
  "append_zero_row M = \<lparr>ncols = ncols M, row_data = row_data M @ [replicate (ncols M) 0]\<rparr>"

definition last_row_direction :: "Matrix \<Rightarrow> Vector \<Rightarrow> Matrix" where
  "last_row_direction M v =
     \<lparr>ncols = ncols M, row_data = replicate (nrows M) (replicate (ncols M) 0) @ [v]\<rparr>"

subsection \<open>What the log says about the end of a run\<close>





text \<open>The iterate returned by the last call of the solver, if there was one.\<close>

definition last_solved :: "call list \<Rightarrow> Matrix" where
  "last_solved lg =
     (if collect TNT_output lg = [] then Matrix_default else last (collect TNT_output lg))"

text \<open>
  A level that the staircase passes on its way up: the eigenvalue computation converged
  and the eigenvalue is at or below the negated tolerance.
\<close>

definition saddle_found :: "real \<Rightarrow> bool \<times> real \<Rightarrow> bool" where
  "saddle_found eps cl = (fst cl \<and> snd cl \<le> - eps)"

text \<open>What holds of the state each time the loop condition is evaluated.\<close>

definition staircase_inv :: "SESyncOpts \<Rightarrow> SESyncState \<Rightarrow> bool" where
  "staircase_inv options s =
     (status s = RS_ITER_LIMIT \<and>
      list_all (saddle_found (min_eig_num_tol options)) (collect min_eig_result (calls s)) \<and>
      list_all (\<lambda>ok. ok) (collect escape_result (calls s)) \<and>
      list_all (\<lambda>lam. lam \<le> - min_eig_num_tol options) (collect escape_lambda (calls s)) \<and>
      length (function_values s) = length (collect TNT_output (calls s)) \<and>
      length (gradient_norms s) = length (collect TNT_output (calls s)) \<and>
      length (elapsed_optimization_times s) = length (collect TNT_output (calls s)) \<and>
      length (minimum_eigenvalues s) = length (collect TNT_output (calls s)) \<and>
      length (minimum_eigenvalue_computation_times s) = length (collect TNT_output (calls s)) \<and>
      length (collect min_eig_result (calls s)) = length (collect TNT_output (calls s)) \<and>
      Yopt s = last_solved (calls s))"

text \<open>What holds of the state when the loop has ended.\<close>

definition staircase_post :: "SESyncOpts \<Rightarrow> SESyncState \<Rightarrow> bool" where
  "staircase_post options s =
     (list_all (\<lambda>lam. lam \<le> - min_eig_num_tol options) (collect escape_lambda (calls s)) \<and>
      length (function_values s) = length (collect TNT_output (calls s)) \<and>
      length (gradient_norms s) = length (collect TNT_output (calls s)) \<and>
      length (elapsed_optimization_times s) = length (collect TNT_output (calls s)) \<and>
      length (collect min_eig_result (calls s)) = length (collect TNT_output (calls s)) \<and>
      length (minimum_eigenvalues s) = length (filter fst (collect min_eig_result (calls s))) \<and>
      length (minimum_eigenvalue_computation_times s) =
        length (filter fst (collect min_eig_result (calls s))) \<and>
      Yopt s = last_solved (calls s) \<and>
      (case status s of
         RS_ITER_LIMIT \<Rightarrow>
           list_all (saddle_found (min_eig_num_tol options)) (collect min_eig_result (calls s)) \<and>
           list_all (\<lambda>ok. ok) (collect escape_result (calls s))
       | EIG_IMPRECISION \<Rightarrow>
           collect min_eig_result (calls s) \<noteq> [] \<and>
           \<not> fst (last (collect min_eig_result (calls s))) \<and>
           list_all (saddle_found (min_eig_num_tol options))
             (butlast (collect min_eig_result (calls s))) \<and>
           list_all (\<lambda>ok. ok) (collect escape_result (calls s))
       | GLOBAL_OPT \<Rightarrow>
           collect min_eig_result (calls s) \<noteq> [] \<and>
           fst (last (collect min_eig_result (calls s))) \<and>
           - min_eig_num_tol options < snd (last (collect min_eig_result (calls s))) \<and>
           list_all (saddle_found (min_eig_num_tol options))
             (butlast (collect min_eig_result (calls s))) \<and>
           list_all (\<lambda>ok. ok) (collect escape_result (calls s))
       | SADDLE_POINT \<Rightarrow>
           list_all (saddle_found (min_eig_num_tol options)) (collect min_eig_result (calls s)) \<and>
           collect escape_result (calls s) \<noteq> [] \<and>
           \<not> last (collect escape_result (calls s)) \<and>
           list_all (\<lambda>ok. ok) (butlast (collect escape_result (calls s)))))"

subsection \<open>A small environment for concrete runs\<close>

text \<open>
  An environment in which every run can be computed: the solver returns its initial
  iterate; the eigenvalue computation answers by the rank of the problem, with the flag
  \<open>conv\<close> and the eigenvalue \<open>lam\<close> given per rank and a vector of ones; the objective is a
  given function \<open>obj\<close> of the matrix; the retraction adds the tangent vector to the base
  point; the gradient of a matrix is the matrix and every norm is 1; rounding is the
  identity; there is one pose of dimension one.
\<close>

definition demo_env :: "(32 word \<Rightarrow> bool) \<Rightarrow> (32 word \<Rightarrow> real) \<Rightarrow> (Matrix \<Rightarrow> real) \<Rightarrow> env" where
  "demo_env conv lam obj =
     \<lparr>indeterminate = 0,
      fresh_rank = 0,
      TNT = (\<lambda>P pre params lgi Yi N its.
               (\<lparr>TNT_x = Yi, TNT_f = obj Yi, TNT_objective_values = [obj Yi],
                 TNT_gradient_norms = [0], TNT_time = [0], TNT_elapsed_time = 0\<rparr>, N, its)),
      evaluate_objective = (\<lambda>P M. obj M),
      Riemannian_gradient = (\<lambda>P M. M),
      matrix_norm = (\<lambda>M. 1),
      retract = (\<lambda>P B V. B\<lparr>row_data := map2 (map2 (+)) (row_data B) (row_data V)\<rparr>),
      round_solution = (\<lambda>P M. M),
      chordal_initialization = (\<lambda>P. Zero (unat (relaxation_rank P)) 2),
      random_sample =
        (\<lambda>P. \<lparr>ncols = 2, row_data = replicate (unat (relaxation_rank P)) [1, 1]\<rparr>),
      compute_S_minus_Lambda_min_eig =
        (\<lambda>P M l0 v0 mi tol nl.
           (conv (relaxation_rank P), lam (relaxation_rank P), replicate (ncols M) 1)),
      num_poses = (\<lambda>P. 1),
      dimension = (\<lambda>P. 1),
      eig_elapsed_time = (\<lambda>r. 0),
      initialization_elapsed_time = 0,
      total_elapsed_time = 0\<rparr>"

text \<open>Options with the given levels and tolerances.\<close>

definition demo_opts :: "32 word \<Rightarrow> 32 word \<Rightarrow> real \<Rightarrow> real \<Rightarrow> SESyncOpts" where
  "demo_opts a b eps tol =
     \<lparr>formulation = Simplified, r0 = a, rmax = b, num_Lanczos_vectors = 20,
      max_eig_iterations = 100, min_eig_num_tol = eps, use_Cholesky = True,
      use_chordal_initialization = True, log_iterates = False, num_threads = 1,
      grad_norm_tol = tol, rel_func_decrease_tol = 0, stepsize_tol = 0,
      max_iterations = 10, max_tCG_iterations = 10, precon = None_Preconditioner,
      verbose = False\<rparr>"

definition demo_opts_explicit :: "32 word \<Rightarrow> 32 word \<Rightarrow> real \<Rightarrow> real \<Rightarrow> SESyncOpts" where
  "demo_opts_explicit a b eps tol = (demo_opts a b eps tol)\<lparr>formulation := Explicit\<rparr>"

definition demo_opts_random :: "32 word \<Rightarrow> 32 word \<Rightarrow> real \<Rightarrow> real \<Rightarrow> SESyncOpts" where
  "demo_opts_random a b eps tol =
     (demo_opts a b eps tol)\<lparr>use_chordal_initialization := False\<rparr>"

text \<open>Objectives: one that decreases with every added row, and a constant one.\<close>

definition descending :: "Matrix \<Rightarrow> real" where
  "descending M = - real (nrows M)"

definition flat :: "Matrix \<Rightarrow> real" where
  "flat M = 0"

text \<open>A saddle point with one row, its problem at rank 2, and an eigenvector.\<close>

definition demo_saddle :: Matrix where
  "demo_saddle = \<lparr>ncols = 2, row_data = [[1, 1]]\<rparr>"



text \<open>
  Five scenarios. In each the eigenvalue computation answers by the rank of the problem.
  \<^item> \<open>climbing_env\<close>: every level is a saddle (eigenvalue \<open>- 1\<close>) and every escape finds a
    lower point.
  \<^item> \<open>stuck_env\<close>: every level is a saddle and no trial point is lower.
  \<^item> \<open>certified_env\<close>: level 1 is a saddle, the eigenvalue is 0 above it.
  \<^item> \<open>imprecise_env\<close>: the eigenvalue computation converges at level 1 only.
  \<^item> \<open>degenerate_env\<close>: the eigenvalue is 0 at every level.
\<close>

definition every_level :: "32 word \<Rightarrow> bool" where
  "every_level r = True"

definition first_level_only :: "32 word \<Rightarrow> bool" where
  "first_level_only r = (r = 1)"

definition minus_one :: "32 word \<Rightarrow> real" where
  "minus_one r = - 1"

definition zero_above_first :: "32 word \<Rightarrow> real" where
  "zero_above_first r = (if r = 1 then - 1 else 0)"

definition zero_eigenvalue :: "32 word \<Rightarrow> real" where
  "zero_eigenvalue r = 0"

definition climbing_env :: env where
  "climbing_env = demo_env every_level minus_one descending"

definition stuck_env :: env where
  "stuck_env = demo_env every_level minus_one flat"

definition certified_env :: env where
  "certified_env = demo_env every_level zero_above_first descending"

definition imprecise_env :: env where
  "imprecise_env = demo_env first_level_only minus_one descending"

definition degenerate_env :: env where
  "degenerate_env = demo_env every_level zero_eigenvalue descending"

text \<open>
  The state in which a run without initial iterate enters the loop, the state after the
  solver call and the eigenvalue computation of its first level, and the state in which
  its first level (at \<open>r = 1\<close>) ends.
\<close>

definition demo_start :: "env \<Rightarrow> SESyncOpts \<Rightarrow> SESyncState" where
  "demo_start E options = SESync_setup E [] options Matrix_default"

definition demo_checked :: "env \<Rightarrow> SESyncOpts \<Rightarrow> SESyncState" where
  "demo_checked E options =
     snd (check_second_order E options (run_TNT E options (demo_start E options)))"

definition demo_level_end :: "env \<Rightarrow> SESyncOpts \<Rightarrow> SESyncState" where
  "demo_level_end E options = snd (projr (staircase_level E options 1 (demo_start E options)))"

section \<open>Properties\<close>

subsection \<open>The line search\<close>

lemma step_length_half: "step_length (alpha / 2) k = step_length alpha (Suc k)"
  by (simp add: step_length_def)

lemma line_search_unfold:
  "line_search E P FY Ya Yd tol alpha lg =
     (if \<not> acceptable E P FY tol (trial_point E P Ya Yd (alpha / 2)) \<and> alpha_min < alpha / 2
      then line_search E P FY Ya Yd tol (alpha / 2) (lg @ trial_calls E P Ya Yd (alpha / 2))
      else (acceptable E P FY tol (trial_point E P Ya Yd (alpha / 2)),
            trial_point E P Ya Yd (alpha / 2), lg @ trial_calls E P Ya Yd (alpha / 2)))"
  by (subst line_search.simps) (simp add: Let_def acceptable_def trial_point_def trial_calls_def)

text \<open>
  The search runs trials \<open>0, \<dots>, n\<close>: every trial before the \<open>n\<close>-th is rejected at a step
  above the floor, and the \<open>n\<close>-th is accepted or has its step at or below the floor.
\<close>

lemma line_search_char:
  "\<exists>n. line_search E P FY Ya Yd tol alpha lg =
          (acceptable E P FY tol (trial_point E P Ya Yd (step_length alpha n)),
           trial_point E P Ya Yd (step_length alpha n),
           lg @ concat (map (\<lambda>j. trial_calls E P Ya Yd (step_length alpha j)) [0..<Suc n]))
      \<and> (\<forall>j<n. \<not> acceptable E P FY tol (trial_point E P Ya Yd (step_length alpha j))
               \<and> alpha_min < step_length alpha j)
      \<and> (acceptable E P FY tol (trial_point E P Ya Yd (step_length alpha n))
           \<or> step_length alpha n \<le> alpha_min)"
proof (induction E P FY Ya Yd tol alpha lg rule: line_search.induct)
  case (1 E P FY Ya Yd tol alpha lg)
  let ?go = "\<not> acceptable E P FY tol (trial_point E P Ya Yd (alpha / 2)) \<and> alpha_min < alpha / 2"
  have first: "step_length alpha 0 = alpha / 2"
    by (simp add: step_length_def)
  show ?case
  proof (cases ?go)
    case False
    then have "line_search E P FY Ya Yd tol alpha lg =
        (acceptable E P FY tol (trial_point E P Ya Yd (step_length alpha 0)),
         trial_point E P Ya Yd (step_length alpha 0),
         lg @ concat (map (\<lambda>j. trial_calls E P Ya Yd (step_length alpha j)) [0..<Suc 0]))"
      by (subst line_search_unfold) (auto simp: first)
    moreover have "acceptable E P FY tol (trial_point E P Ya Yd (step_length alpha 0))
           \<or> step_length alpha 0 \<le> alpha_min"
      using False by (auto simp: first)
    ultimately show ?thesis
      by (intro exI [of _ 0]) simp
  next
    case True
    have "\<exists>n. line_search E P FY Ya Yd tol (alpha / 2) (lg @ trial_calls E P Ya Yd (alpha / 2)) =
          (acceptable E P FY tol (trial_point E P Ya Yd (step_length (alpha / 2) n)),
           trial_point E P Ya Yd (step_length (alpha / 2) n),
           (lg @ trial_calls E P Ya Yd (alpha / 2)) @
             concat (map (\<lambda>j. trial_calls E P Ya Yd (step_length (alpha / 2) j)) [0..<Suc n]))
      \<and> (\<forall>j<n. \<not> acceptable E P FY tol (trial_point E P Ya Yd (step_length (alpha / 2) j))
               \<and> alpha_min < step_length (alpha / 2) j)
      \<and> (acceptable E P FY tol (trial_point E P Ya Yd (step_length (alpha / 2) n))
           \<or> step_length (alpha / 2) n \<le> alpha_min)"
      using True
      by (intro "1.IH" [where x = "alpha / 2", unfolded trial_calls_def [symmetric] trial_point_def [symmetric] acceptable_def [symmetric]])
         (auto simp: acceptable_def trial_point_def trial_calls_def)
    then obtain n where
      run: "line_search E P FY Ya Yd tol (alpha / 2) (lg @ trial_calls E P Ya Yd (alpha / 2)) =
          (acceptable E P FY tol (trial_point E P Ya Yd (step_length alpha (Suc n))),
           trial_point E P Ya Yd (step_length alpha (Suc n)),
           (lg @ trial_calls E P Ya Yd (alpha / 2)) @
             concat (map (\<lambda>j. trial_calls E P Ya Yd (step_length alpha (Suc j))) [0..<Suc n]))"
      and before: "\<forall>j<n. \<not> acceptable E P FY tol (trial_point E P Ya Yd (step_length alpha (Suc j)))
               \<and> alpha_min < step_length alpha (Suc j)"
      and stop: "acceptable E P FY tol (trial_point E P Ya Yd (step_length alpha (Suc n)))
           \<or> step_length alpha (Suc n) \<le> alpha_min"
      unfolding step_length_half by blast
    have shift: "map (\<lambda>j. trial_calls E P Ya Yd (step_length alpha j)) [0..<Suc (Suc n)] =
        trial_calls E P Ya Yd (alpha / 2) #
        map (\<lambda>j. trial_calls E P Ya Yd (step_length alpha (Suc j))) [0..<Suc n]"
      by (simp only: upt_conv_Cons [of 0 "Suc (Suc n)"] map_Suc_upt [symmetric] list.map map_map o_def first)
    have step: "line_search E P FY Ya Yd tol alpha lg =
        line_search E P FY Ya Yd tol (alpha / 2) (lg @ trial_calls E P Ya Yd (alpha / 2))"
      using True by (subst line_search_unfold) simp
    have "line_search E P FY Ya Yd tol alpha lg =
          (acceptable E P FY tol (trial_point E P Ya Yd (step_length alpha (Suc n))),
           trial_point E P Ya Yd (step_length alpha (Suc n)),
           lg @ concat (map (\<lambda>j. trial_calls E P Ya Yd (step_length alpha j)) [0..<Suc (Suc n)]))"
      unfolding step run shift by (simp only: concat.simps append_assoc)
    moreover have "\<forall>j<Suc n. \<not> acceptable E P FY tol (trial_point E P Ya Yd (step_length alpha j))
               \<and> alpha_min < step_length alpha j"
    proof (intro allI impI)
      fix j assume "j < Suc n"
      show "\<not> acceptable E P FY tol (trial_point E P Ya Yd (step_length alpha j))
               \<and> alpha_min < step_length alpha j"
      proof (cases j)
        case 0
        with True show ?thesis by (simp add: first)
      next
        case (Suc i)
        with \<open>j < Suc n\<close> before show ?thesis by simp
      qed
    qed
    ultimately show ?thesis
      using stop by (intro exI [of _ "Suc n"]) blast
  qed
qed

subsection \<open>The log readers\<close>

lemma collect_simps [simp]:
  "collect f [] = []"
  "collect f (c # lg) = f c @ collect f lg"
  "collect f (lg @ lg') = collect f lg @ collect f lg'"
  by (simp_all add: collect_def)

lemma collect_concat: "collect f (concat (map g xs)) = concat (map (\<lambda>x. collect f (g x)) xs)"
  by (induction xs) simp_all


lemma concat_map_Nil: "concat (map (\<lambda>x. []) xs) = []"
  by (induction xs) simp_all

lemma collect_trial_calls [simp]:
  "collect retract_call (trial_calls E P Ya Yd a) = [(Ya, scale a Yd)]"
  "collect TNT_seed (trial_calls E P Ya Yd a) = []"
  "collect TNT_output (trial_calls E P Ya Yd a) = []"
  "collect min_eig_result (trial_calls E P Ya Yd a) = []"
  "collect escape_lambda (trial_calls E P Ya Yd a) = []"
  "collect escape_result (trial_calls E P Ya Yd a) = []"
  "collect initialization_call (trial_calls E P Ya Yd a) = []"
  "collect round_solution_call (trial_calls E P Ya Yd a) = []"
  by (simp_all add: trial_calls_def)

lemma drop_replicate_Suc: "drop n (x # replicate n x) = [x]"
  by (induction n) simp_all

lemma butlast_replicate_Suc: "butlast (x # replicate n x) = replicate n x"
  by (induction n) simp_all

lemma escape_shapes:
  assumes "unat (relaxation_rank P) = Suc (nrows M)" and "length v = ncols M"
  shows "assign_topRows (unat (relaxation_rank P - 1)) (Zero (unat (relaxation_rank P)) (ncols M)) M
           = Inr (append_zero_row M)"
    and "assign_bottomRow (Zero (unat (relaxation_rank P)) (ncols M)) v
           = Inr (last_row_direction M v)"
proof -
  from assms(1) have "relaxation_rank P \<noteq> 0"
    by auto
  then have "unat (relaxation_rank P - 1) = unat (relaxation_rank P) - 1"
    by (rule unat_minus_one)
  with assms(1) have pred: "unat (relaxation_rank P - 1) = nrows M"
    by simp
  show "assign_topRows (unat (relaxation_rank P - 1)) (Zero (unat (relaxation_rank P)) (ncols M)) M
           = Inr (append_zero_row M)"
    using assms(1)
    by (simp add: pred assign_topRows_def Zero_def append_zero_row_def nrows_def
        drop_replicate_Suc)
  show "assign_bottomRow (Zero (unat (relaxation_rank P)) (ncols M)) v
           = Inr (last_row_direction M v)"
    using assms
    by (simp add: assign_bottomRow_def Zero_def last_row_direction_def nrows_def
        butlast_replicate_Suc del: butlast.simps)
qed

text \<open>The whole of a call of \<open>escape_saddle\<close> whose arguments have matching shapes.\<close>

lemma escape_saddle_char:
  assumes "lam \<noteq> 0" and "unat (relaxation_rank P) = Suc (nrows M)" and "length v = ncols M"
  shows "\<exists>n. escape_saddle E P M lam v tol Yplus lg =
            Inr (acceptable E P (evaluate_objective E P M) tol
                   (trial_point E P (append_zero_row M) (last_row_direction M v)
                      (step_length (200 * tol / \<bar>lam\<bar>) n)),
                 (if acceptable E P (evaluate_objective E P M) tol
                       (trial_point E P (append_zero_row M) (last_row_direction M v)
                          (step_length (200 * tol / \<bar>lam\<bar>) n))
                  then trial_point E P (append_zero_row M) (last_row_direction M v)
                          (step_length (200 * tol / \<bar>lam\<bar>) n)
                  else Yplus),
                 lg @ [Enter_escape_saddle M lam v tol, Call_evaluate_objective M] @
                   concat (map (\<lambda>j. trial_calls E P (append_zero_row M) (last_row_direction M v)
                                       (step_length (200 * tol / \<bar>lam\<bar>) j)) [0..<Suc n]) @
                   [Leave_escape_saddle
                      (acceptable E P (evaluate_objective E P M) tol
                         (trial_point E P (append_zero_row M) (last_row_direction M v)
                            (step_length (200 * tol / \<bar>lam\<bar>) n)))])
        \<and> (\<forall>j<n. \<not> acceptable E P (evaluate_objective E P M) tol
                      (trial_point E P (append_zero_row M) (last_row_direction M v)
                         (step_length (200 * tol / \<bar>lam\<bar>) j))
                 \<and> alpha_min < step_length (200 * tol / \<bar>lam\<bar>) j)
        \<and> (acceptable E P (evaluate_objective E P M) tol
                (trial_point E P (append_zero_row M) (last_row_direction M v)
                   (step_length (200 * tol / \<bar>lam\<bar>) n))
             \<or> step_length (200 * tol / \<bar>lam\<bar>) n \<le> alpha_min)"
proof -
  let ?FY = "evaluate_objective E P M"
  let ?Ya = "append_zero_row M"
  let ?Yd = "last_row_direction M v"
  let ?a = "200 * tol / \<bar>lam\<bar>"
  let ?lg = "lg @ [Enter_escape_saddle M lam v tol, Call_evaluate_objective M]"
  obtain n where
    run: "line_search E P ?FY ?Ya ?Yd tol ?a ?lg =
          (acceptable E P ?FY tol (trial_point E P ?Ya ?Yd (step_length ?a n)),
           trial_point E P ?Ya ?Yd (step_length ?a n),
           ?lg @ concat (map (\<lambda>j. trial_calls E P ?Ya ?Yd (step_length ?a j)) [0..<Suc n]))"
    and before: "\<forall>j<n. \<not> acceptable E P ?FY tol (trial_point E P ?Ya ?Yd (step_length ?a j))
               \<and> alpha_min < step_length ?a j"
    and stop: "acceptable E P ?FY tol (trial_point E P ?Ya ?Yd (step_length ?a n))
           \<or> step_length ?a n \<le> alpha_min"
    using line_search_char [of E P ?FY ?Ya ?Yd tol ?a ?lg] by blast
  have "escape_saddle E P M lam v tol Yplus lg =
      (case line_search E P ?FY ?Ya ?Yd tol ?a ?lg of
         (escape_success, Ytest, lg') \<Rightarrow>
           if escape_success then Inr (True, Ytest, lg' @ [Leave_escape_saddle True])
           else Inr (False, Yplus, lg' @ [Leave_escape_saddle False]))"
    using assms(1) by (simp add: escape_saddle_def Let_def escape_shapes [OF assms(2,3)])
  then have "escape_saddle E P M lam v tol Yplus lg =
            Inr (acceptable E P ?FY tol (trial_point E P ?Ya ?Yd (step_length ?a n)),
                 (if acceptable E P ?FY tol (trial_point E P ?Ya ?Yd (step_length ?a n))
                  then trial_point E P ?Ya ?Yd (step_length ?a n) else Yplus),
                 lg @ [Enter_escape_saddle M lam v tol, Call_evaluate_objective M] @
                   concat (map (\<lambda>j. trial_calls E P ?Ya ?Yd (step_length ?a j)) [0..<Suc n]) @
                   [Leave_escape_saddle
                      (acceptable E P ?FY tol (trial_point E P ?Ya ?Yd (step_length ?a n)))])"
    by (simp only: run prod.case) (simp del: upt_Suc)
  with before stop show ?thesis
    by blast
qed

lemma collect_trial_log [simp]:
  "collect TNT_seed (concat (map (\<lambda>j. trial_calls E P Ya Yd (g j)) js)) = []"
  "collect TNT_output (concat (map (\<lambda>j. trial_calls E P Ya Yd (g j)) js)) = []"
  "collect min_eig_result (concat (map (\<lambda>j. trial_calls E P Ya Yd (g j)) js)) = []"
  "collect escape_lambda (concat (map (\<lambda>j. trial_calls E P Ya Yd (g j)) js)) = []"
  "collect escape_result (concat (map (\<lambda>j. trial_calls E P Ya Yd (g j)) js)) = []"
  "collect initialization_call (concat (map (\<lambda>j. trial_calls E P Ya Yd (g j)) js)) = []"
  "collect round_solution_call (concat (map (\<lambda>j. trial_calls E P Ya Yd (g j)) js)) = []"
  by (simp_all add: collect_concat concat_map_Nil)

text \<open>What a returning call of \<open>escape_saddle\<close> adds to the log.\<close>

lemma escape_saddle_Inr:
  assumes "escape_saddle E P M lam v tol Yplus lg = Inr (ok, Yp, lg')"
  shows "lam \<noteq> 0"
    and "collect TNT_seed lg' = collect TNT_seed lg"
    and "collect TNT_output lg' = collect TNT_output lg"
    and "collect min_eig_result lg' = collect min_eig_result lg"
    and "collect escape_lambda lg' = collect escape_lambda lg @ [lam]"
    and "collect escape_result lg' = collect escape_result lg @ [ok]"
    and "collect initialization_call lg' = collect initialization_call lg"
    and "collect round_solution_call lg' = collect round_solution_call lg"
    and "\<exists>rest. lg' = lg @ Enter_escape_saddle M lam v tol # rest"
proof -
  let ?FY = "evaluate_objective E P M"
  let ?a = "2 * 100 * tol / \<bar>lam\<bar>"
  let ?lg = "lg @ [Enter_escape_saddle M lam v tol, Call_evaluate_objective M]"
  obtain Ya where ya: "assign_topRows (unat (relaxation_rank P - 1))
      (Zero (unat (relaxation_rank P)) (ncols M)) M = Inr Ya"
    using assms
    by (cases "assign_topRows (unat (relaxation_rank P - 1))
      (Zero (unat (relaxation_rank P)) (ncols M)) M") (simp_all add: escape_saddle_def Let_def)
  obtain Yd where yd: "assign_bottomRow (Zero (unat (relaxation_rank P)) (ncols M)) v = Inr Yd"
    using assms ya
    by (cases "assign_bottomRow (Zero (unat (relaxation_rank P)) (ncols M)) v")
       (simp_all add: escape_saddle_def Let_def)
  have nz: "lam \<noteq> 0"
    using assms ya yd by (auto simp: escape_saddle_def Let_def)
  have res: "(case line_search E P ?FY Ya Yd tol ?a ?lg of
         (escape_success, Ytest, lg'') \<Rightarrow>
           if escape_success then Inr (True, Ytest, lg'' @ [Leave_escape_saddle True])
           else Inr (False, Yplus, lg'' @ [Leave_escape_saddle False])) =
         (Inr (ok, Yp, lg') :: failure + bool \<times> Matrix \<times> call list)"
    using assms ya yd nz by (simp add: escape_saddle_def Let_def)
  obtain n where
    run: "line_search E P ?FY Ya Yd tol ?a ?lg =
          (acceptable E P ?FY tol (trial_point E P Ya Yd (step_length ?a n)),
           trial_point E P Ya Yd (step_length ?a n),
           ?lg @ concat (map (\<lambda>j. trial_calls E P Ya Yd (step_length ?a j)) [0..<Suc n]))"
    using line_search_char [of E P ?FY Ya Yd tol ?a ?lg] by blast
  from res have lg': "lg' = ?lg @ concat (map (\<lambda>j. trial_calls E P Ya Yd (step_length ?a j)) [0..<Suc n])
      @ [Leave_escape_saddle ok]"
    unfolding run by (auto split: if_splits)
  show "lam \<noteq> 0" by (rule nz)
  show "collect TNT_seed lg' = collect TNT_seed lg"
    unfolding lg' by (simp del: upt_Suc)
  show "collect TNT_output lg' = collect TNT_output lg"
    unfolding lg' by (simp del: upt_Suc)
  show "collect min_eig_result lg' = collect min_eig_result lg"
    unfolding lg' by (simp del: upt_Suc)
  show "collect escape_lambda lg' = collect escape_lambda lg @ [lam]"
    unfolding lg' by (simp del: upt_Suc)
  show "collect escape_result lg' = collect escape_result lg @ [ok]"
    unfolding lg' by (simp del: upt_Suc)
  show "collect initialization_call lg' = collect initialization_call lg"
    unfolding lg' by (simp del: upt_Suc)
  show "collect round_solution_call lg' = collect round_solution_call lg"
    unfolding lg' by (simp del: upt_Suc)
  show "\<exists>rest. lg' = lg @ Enter_escape_saddle M lam v tol # rest"
    unfolding lg' by (simp del: upt_Suc)
qed

lemma escape_saddle_DivisionByZero:
  "escape_saddle E P M lam v tol Yplus lg = Inl DivisionByZero \<Longrightarrow> lam = 0"
  by (auto simp: escape_saddle_def Let_def assign_topRows_def assign_bottomRow_def
      split: sum.splits if_splits prod.splits)

text \<open>The ways through the body of the loop.\<close>

lemma staircase_level_cases:
  assumes "staircase_level E options r s = res"
  obtains
    (not_converged) s1 where
      "check_second_order E options (run_TNT E options s) = (False, s1)"
      "res = Inr (Break, s1\<lparr>status := EIG_IMPRECISION\<rparr>)"
  | (certified) s1 where
      "check_second_order E options (run_TNT E options s) = (True, s1)"
      "- min_eig_num_tol options < lambda_min s1"
      "res = Inr (Break, (record_eigenvalue E r s1)\<lparr>status := GLOBAL_OPT\<rparr>)"
  | (aborted) s1 e where
      "check_second_order E options (run_TNT E options s) = (True, s1)"
      "lambda_min s1 \<le> - min_eig_num_tol options"
      "escape_saddle E (set_relaxation_rank (r + 1) (problem s1)) (Yopt s1) (lambda_min s1)
         (v_min s1) (grad_norm_tol options) Matrix_default
         (calls s1 @ [Call_set_relaxation_rank (r + 1)]) = Inl e"
      "res = Inl e"
  | (escaped) s1 Yplus lg where
      "check_second_order E options (run_TNT E options s) = (True, s1)"
      "lambda_min s1 \<le> - min_eig_num_tol options"
      "escape_saddle E (set_relaxation_rank (r + 1) (problem s1)) (Yopt s1) (lambda_min s1)
         (v_min s1) (grad_norm_tol options) Matrix_default
         (calls s1 @ [Call_set_relaxation_rank (r + 1)]) = Inr (True, Yplus, lg)"
      "res = Inr (Continue, (augment_rank r (record_eigenvalue E r s1))\<lparr>Y_cur := Yplus, calls := lg\<rparr>)"
  | (stuck) s1 Yplus lg where
      "check_second_order E options (run_TNT E options s) = (True, s1)"
      "lambda_min s1 \<le> - min_eig_num_tol options"
      "escape_saddle E (set_relaxation_rank (r + 1) (problem s1)) (Yopt s1) (lambda_min s1)
         (v_min s1) (grad_norm_tol options) Matrix_default
         (calls s1 @ [Call_set_relaxation_rank (r + 1)]) = Inr (False, Yplus, lg)"
      "res = Inr (Break, (augment_rank r (record_eigenvalue E r s1))\<lparr>status := SADDLE_POINT, calls := lg\<rparr>)"
proof -
  obtain conv s1 where c: "check_second_order E options (run_TNT E options s) = (conv, s1)"
    by (cases "check_second_order E options (run_TNT E options s)")
  have aug [simp]:
    "problem (augment_rank r (record_eigenvalue E r s1)) = set_relaxation_rank (r + 1) (problem s1)"
    "Yopt (augment_rank r (record_eigenvalue E r s1)) = Yopt s1"
    "lambda_min (augment_rank r (record_eigenvalue E r s1)) = lambda_min s1"
    "v_min (augment_rank r (record_eigenvalue E r s1)) = v_min s1"
    "calls (augment_rank r (record_eigenvalue E r s1)) = calls s1 @ [Call_set_relaxation_rank (r + 1)]"
    "lambda_min (record_eigenvalue E r s1) = lambda_min s1"
    by (simp_all add: augment_rank_def record_eigenvalue_def)
  show thesis
  proof (cases conv)
    case False
    with assms c show thesis
      by (intro not_converged [of s1]) (simp_all add: staircase_level_def)
  next
    case True
    note conv = this
    show thesis
    proof (cases "- min_eig_num_tol options < lambda_min s1")
      case True
      with assms c conv show thesis
        by (intro certified [of s1]) (simp_all add: staircase_level_def Let_def)
    next
      case False
      then have le: "lambda_min s1 \<le> - min_eig_num_tol options"
        by simp
      show thesis
      proof (cases "escape_saddle E (set_relaxation_rank (r + 1) (problem s1)) (Yopt s1)
          (lambda_min s1) (v_min s1) (grad_norm_tol options) Matrix_default
          (calls s1 @ [Call_set_relaxation_rank (r + 1)])")
        case (Inl e)
        with assms c conv False le show thesis
          by (intro aborted [of s1 e]) (simp_all add: staircase_level_def Let_def)
      next
        case (Inr x)
        obtain ok Yplus lg where x: "x = (ok, Yplus, lg)"
          by (cases x)
        show thesis
        proof (cases ok)
          case True
          with assms c conv False le Inr x show thesis
            by (intro escaped [of s1 Yplus lg]) (simp_all add: staircase_level_def Let_def)
        next
          case ok: False
          with assms c conv False le Inr x show thesis
            by (intro stuck [of s1 Yplus lg]) (simp_all add: staircase_level_def Let_def)
        qed
      qed
    qed
  qed
qed

subsection \<open>The staircase loop\<close>

text \<open>The effect of the solver call and the eigenvalue computation of one level.\<close>

lemma solved_and_checked:
  assumes "check_second_order E options (run_TNT E options s) = (conv, s1)"
  shows "status s1 = status s"
    and "length (function_values s1) = Suc (length (function_values s))"
    and "length (gradient_norms s1) = Suc (length (gradient_norms s))"
    and "length (elapsed_optimization_times s1) = Suc (length (elapsed_optimization_times s))"
    and "minimum_eigenvalues s1 = minimum_eigenvalues s"
    and "minimum_eigenvalue_computation_times s1 = minimum_eigenvalue_computation_times s"
    and "problem s1 = problem s"
    and "Y_cur s1 = Y_cur s"
    and "calls s1 = calls s @ [Call_TNT (Y_cur s) (Yopt s1), Call_Riemannian_gradient (Yopt s1),
                              Call_min_eig (Yopt s1) conv (lambda_min s1)]"
proof -
  obtain T N its where T: "TNT E (problem s) (precon options \<noteq> None_Preconditioner)
      (TNT_params options) (log_iterates options) (Y_cur s) (NablaF_Y s) (iterates s) = (T, N, its)"
    by (cases "TNT E (problem s) (precon options \<noteq> None_Preconditioner)
      (TNT_params options) (log_iterates options) (Y_cur s) (NablaF_Y s) (iterates s)") auto
  obtain c lam v where C: "compute_S_minus_Lambda_min_eig E (problem (run_TNT E options s))
      (Yopt (run_TNT E options s)) (lambda_min (run_TNT E options s)) (v_min (run_TNT E options s))
      (max_eig_iterations options) (min_eig_num_tol options) (num_Lanczos_vectors options) = (c, lam, v)"
    by (cases "compute_S_minus_Lambda_min_eig E (problem (run_TNT E options s))
      (Yopt (run_TNT E options s)) (lambda_min (run_TNT E options s)) (v_min (run_TNT E options s))
      (max_eig_iterations options) (min_eig_num_tol options) (num_Lanczos_vectors options)") auto
  from assms C have s1: "s1 = (run_TNT E options s)\<lparr>lambda_min := lam, v_min := v,
      calls := calls (run_TNT E options s) @ [Call_min_eig (Yopt (run_TNT E options s)) c lam]\<rparr>"
    and conv: "conv = c"
    by (auto simp: check_second_order_def)
  show "status s1 = status s"
    by (simp add: s1 run_TNT_def T Let_def)
  show "length (function_values s1) = Suc (length (function_values s))"
    by (simp add: s1 run_TNT_def T Let_def)
  show "length (gradient_norms s1) = Suc (length (gradient_norms s))"
    by (simp add: s1 run_TNT_def T Let_def)
  show "length (elapsed_optimization_times s1) = Suc (length (elapsed_optimization_times s))"
    by (simp add: s1 run_TNT_def T Let_def)
  show "minimum_eigenvalues s1 = minimum_eigenvalues s"
    by (simp add: s1 run_TNT_def T Let_def)
  show "minimum_eigenvalue_computation_times s1 = minimum_eigenvalue_computation_times s"
    by (simp add: s1 run_TNT_def T Let_def)
  show "problem s1 = problem s"
    by (simp add: s1 run_TNT_def T Let_def)
  show "Y_cur s1 = Y_cur s"
    by (simp add: s1 run_TNT_def T Let_def)
  show "calls s1 = calls s @ [Call_TNT (Y_cur s) (Yopt s1), Call_Riemannian_gradient (Yopt s1),
                              Call_min_eig (Yopt s1) conv (lambda_min s1)]"
    by (simp add: s1 conv run_TNT_def T Let_def)
qed

lemma filter_converged: "list_all (saddle_found eps) xs \<Longrightarrow> filter fst xs = xs"
  by (induction xs) (auto simp: saddle_found_def)

lemma solved_and_checked_log:
  assumes "check_second_order E options (run_TNT E options s) = (conv, s1)"
  shows "collect TNT_output (calls s1) = collect TNT_output (calls s) @ [Yopt s1]"
    and "collect TNT_seed (calls s1) = collect TNT_seed (calls s) @ [Y_cur s]"
    and "collect min_eig_result (calls s1) = collect min_eig_result (calls s) @ [(conv, lambda_min s1)]"
    and "collect escape_result (calls s1) = collect escape_result (calls s)"
    and "collect escape_lambda (calls s1) = collect escape_lambda (calls s)"
    and "collect initialization_call (calls s1) = collect initialization_call (calls s)"
    and "collect round_solution_call (calls s1) = collect round_solution_call (calls s)"
    and "last_solved (calls s1) = Yopt s1"
  by (simp_all add: solved_and_checked(9) [OF assms] last_solved_def)

lemma staircase_invD:
  assumes "staircase_inv options s"
  shows "status s = RS_ITER_LIMIT"
    and "list_all (saddle_found (min_eig_num_tol options)) (collect min_eig_result (calls s))"
    and "list_all (\<lambda>ok. ok) (collect escape_result (calls s))"
    and "list_all (\<lambda>lam. lam \<le> - min_eig_num_tol options) (collect escape_lambda (calls s))"
    and "length (function_values s) = length (collect TNT_output (calls s))"
    and "length (gradient_norms s) = length (collect TNT_output (calls s))"
    and "length (elapsed_optimization_times s) = length (collect TNT_output (calls s))"
    and "length (minimum_eigenvalues s) = length (collect TNT_output (calls s))"
    and "length (minimum_eigenvalue_computation_times s) = length (collect TNT_output (calls s))"
    and "length (collect min_eig_result (calls s)) = length (collect TNT_output (calls s))"
    and "Yopt s = last_solved (calls s)"
  using assms unfolding staircase_inv_def by blast+

lemma staircase_postI:
  assumes "list_all (\<lambda>lam. lam \<le> - min_eig_num_tol options) (collect escape_lambda (calls s))"
    and "length (function_values s) = length (collect TNT_output (calls s))"
    and "length (gradient_norms s) = length (collect TNT_output (calls s))"
    and "length (elapsed_optimization_times s) = length (collect TNT_output (calls s))"
    and "length (collect min_eig_result (calls s)) = length (collect TNT_output (calls s))"
    and "length (minimum_eigenvalues s) = length (filter fst (collect min_eig_result (calls s)))"
    and "length (minimum_eigenvalue_computation_times s) =
           length (filter fst (collect min_eig_result (calls s)))"
    and "Yopt s = last_solved (calls s)"
    and "case status s of
         RS_ITER_LIMIT \<Rightarrow>
           list_all (saddle_found (min_eig_num_tol options)) (collect min_eig_result (calls s)) \<and>
           list_all (\<lambda>ok. ok) (collect escape_result (calls s))
       | EIG_IMPRECISION \<Rightarrow>
           collect min_eig_result (calls s) \<noteq> [] \<and>
           \<not> fst (last (collect min_eig_result (calls s))) \<and>
           list_all (saddle_found (min_eig_num_tol options))
             (butlast (collect min_eig_result (calls s))) \<and>
           list_all (\<lambda>ok. ok) (collect escape_result (calls s))
       | GLOBAL_OPT \<Rightarrow>
           collect min_eig_result (calls s) \<noteq> [] \<and>
           fst (last (collect min_eig_result (calls s))) \<and>
           - min_eig_num_tol options < snd (last (collect min_eig_result (calls s))) \<and>
           list_all (saddle_found (min_eig_num_tol options))
             (butlast (collect min_eig_result (calls s))) \<and>
           list_all (\<lambda>ok. ok) (collect escape_result (calls s))
       | SADDLE_POINT \<Rightarrow>
           list_all (saddle_found (min_eig_num_tol options)) (collect min_eig_result (calls s)) \<and>
           collect escape_result (calls s) \<noteq> [] \<and>
           \<not> last (collect escape_result (calls s)) \<and>
           list_all (\<lambda>ok. ok) (butlast (collect escape_result (calls s)))"
  shows "staircase_post options s"
  unfolding staircase_post_def using assms by blast

lemma level_not_converged:
  assumes "staircase_inv options s"
    and "check_second_order E options (run_TNT E options s) = (False, s1)"
  shows "staircase_post options (s1\<lparr>status := EIG_IMPRECISION\<rparr>)"
proof (rule staircase_postI, goal_cases)
  note inv = staircase_invD [OF assms(1)]
  note sc = solved_and_checked [OF assms(2)]
  note lg = solved_and_checked_log [OF assms(2)]
  case 1 show ?case using inv(4) by (simp add: lg(5))
  case 2 show ?case using inv(5) by (simp add: lg(1) sc(2))
  case 3 show ?case using inv(6) by (simp add: lg(1) sc(3))
  case 4 show ?case using inv(7) by (simp add: lg(1) sc(4))
  case 5 show ?case using inv(10) by (simp add: lg(1) lg(3))
  case 6 show ?case using inv(8) inv(10) by (simp add: lg(3) sc(5) filter_converged [OF inv(2)])
  case 7 show ?case using inv(9) inv(10) by (simp add: lg(3) sc(6) filter_converged [OF inv(2)])
  case 8 show ?case by (simp add: lg(8))
  case 9 show ?case using inv(2) inv(3) by (simp add: lg(3) lg(4))
qed

lemma record_eigenvalue_simps [simp]:
  "status (record_eigenvalue E r s) = status s"
  "function_values (record_eigenvalue E r s) = function_values s"
  "gradient_norms (record_eigenvalue E r s) = gradient_norms s"
  "elapsed_optimization_times (record_eigenvalue E r s) = elapsed_optimization_times s"
  "length (minimum_eigenvalues (record_eigenvalue E r s)) = Suc (length (minimum_eigenvalues s))"
  "length (minimum_eigenvalue_computation_times (record_eigenvalue E r s)) =
     Suc (length (minimum_eigenvalue_computation_times s))"
  "Yopt (record_eigenvalue E r s) = Yopt s"
  "lambda_min (record_eigenvalue E r s) = lambda_min s"
  "v_min (record_eigenvalue E r s) = v_min s"
  "problem (record_eigenvalue E r s) = problem s"
  "Y_cur (record_eigenvalue E r s) = Y_cur s"
  "calls (record_eigenvalue E r s) = calls s"
  by (simp_all add: record_eigenvalue_def)

lemma augment_rank_simps [simp]:
  "status (augment_rank r s) = status s"
  "function_values (augment_rank r s) = function_values s"
  "gradient_norms (augment_rank r s) = gradient_norms s"
  "elapsed_optimization_times (augment_rank r s) = elapsed_optimization_times s"
  "minimum_eigenvalues (augment_rank r s) = minimum_eigenvalues s"
  "minimum_eigenvalue_computation_times (augment_rank r s) = minimum_eigenvalue_computation_times s"
  "Yopt (augment_rank r s) = Yopt s"
  "lambda_min (augment_rank r s) = lambda_min s"
  "v_min (augment_rank r s) = v_min s"
  "problem (augment_rank r s) = set_relaxation_rank (r + 1) (problem s)"
  "Y_cur (augment_rank r s) = Y_cur s"
  "calls (augment_rank r s) = calls s @ [Call_set_relaxation_rank (r + 1)]"
  by (simp_all add: augment_rank_def)

lemma level_certified:
  assumes "staircase_inv options s"
    and "check_second_order E options (run_TNT E options s) = (True, s1)"
    and "- min_eig_num_tol options < lambda_min s1"
  shows "staircase_post options ((record_eigenvalue E r s1)\<lparr>status := GLOBAL_OPT\<rparr>)"
proof (rule staircase_postI, goal_cases)
  note inv = staircase_invD [OF assms(1)]
  note sc = solved_and_checked [OF assms(2)]
  note lg = solved_and_checked_log [OF assms(2)]
  case 1 show ?case using inv(4) by (simp add: lg(5))
  case 2 show ?case using inv(5) by (simp add: lg(1) sc(2))
  case 3 show ?case using inv(6) by (simp add: lg(1) sc(3))
  case 4 show ?case using inv(7) by (simp add: lg(1) sc(4))
  case 5 show ?case using inv(10) by (simp add: lg(1) lg(3))
  case 6 show ?case using inv(8) inv(10) by (simp add: lg(3) sc(5) filter_converged [OF inv(2)])
  case 7 show ?case using inv(9) inv(10) by (simp add: lg(3) sc(6) filter_converged [OF inv(2)])
  case 8 show ?case by (simp add: lg(8))
  case 9 show ?case using inv(2) inv(3) assms(3) by (simp add: lg(3) lg(4))
qed

lemma level_escaped:
  assumes "staircase_inv options s"
    and "check_second_order E options (run_TNT E options s) = (True, s1)"
    and "lambda_min s1 \<le> - min_eig_num_tol options"
    and "escape_saddle E (set_relaxation_rank (r + 1) (problem s1)) (Yopt s1) (lambda_min s1)
         (v_min s1) (grad_norm_tol options) Matrix_default
         (calls s1 @ [Call_set_relaxation_rank (r + 1)]) = Inr (True, Yplus, lg)"
  shows "staircase_inv options ((augment_rank r (record_eigenvalue E r s1))\<lparr>Y_cur := Yplus, calls := lg\<rparr>)"
proof -
  note inv = staircase_invD [OF assms(1)]
  note sc = solved_and_checked [OF assms(2)]
  note lg = solved_and_checked_log [OF assms(2)]
  note es = escape_saddle_Inr [OF assms(4)]
  have out: "collect TNT_output lg = collect TNT_output (calls s) @ [Yopt s1]"
    by (simp add: es(3) lg(1))
  have res: "collect min_eig_result lg = collect min_eig_result (calls s) @ [(True, lambda_min s1)]"
    by (simp add: es(4) lg(3))
  have esc: "collect escape_result lg = collect escape_result (calls s) @ [True]"
    by (simp add: es(6) lg(4))
  have lam: "collect escape_lambda lg = collect escape_lambda (calls s) @ [lambda_min s1]"
    by (simp add: es(5) lg(5))
  show ?thesis
    unfolding staircase_inv_def
  proof (intro conjI, goal_cases)
    case 1 show ?case by (simp add: sc(1) inv(1))
    case 2 show ?case using inv(2) assms(3) by (simp add: res saddle_found_def)
    case 3 show ?case using inv(3) by (simp add: esc)
    case 4 show ?case using inv(4) assms(3) by (simp add: lam)
    case 5 show ?case using inv(5) by (simp add: out sc(2))
    case 6 show ?case using inv(6) by (simp add: out sc(3))
    case 7 show ?case using inv(7) by (simp add: out sc(4))
    case 8 show ?case using inv(8) by (simp add: out sc(5))
    case 9 show ?case using inv(9) by (simp add: out sc(6))
    case 10 show ?case using inv(10) by (simp add: out res)
    case 11 show ?case by (simp add: last_solved_def out)
  qed
qed

lemma level_stuck:
  assumes "staircase_inv options s"
    and "check_second_order E options (run_TNT E options s) = (True, s1)"
    and "lambda_min s1 \<le> - min_eig_num_tol options"
    and "escape_saddle E (set_relaxation_rank (r + 1) (problem s1)) (Yopt s1) (lambda_min s1)
         (v_min s1) (grad_norm_tol options) Matrix_default
         (calls s1 @ [Call_set_relaxation_rank (r + 1)]) = Inr (False, Yplus, lg)"
  shows "staircase_post options
           ((augment_rank r (record_eigenvalue E r s1))\<lparr>status := SADDLE_POINT, calls := lg\<rparr>)"
proof -
  note inv = staircase_invD [OF assms(1)]
  note sc = solved_and_checked [OF assms(2)]
  note lg = solved_and_checked_log [OF assms(2)]
  note es = escape_saddle_Inr [OF assms(4)]
  have out: "collect TNT_output lg = collect TNT_output (calls s) @ [Yopt s1]"
    by (simp add: es(3) lg(1))
  have res: "collect min_eig_result lg = collect min_eig_result (calls s) @ [(True, lambda_min s1)]"
    by (simp add: es(4) lg(3))
  have esc: "collect escape_result lg = collect escape_result (calls s) @ [False]"
    by (simp add: es(6) lg(4))
  have lam: "collect escape_lambda lg = collect escape_lambda (calls s) @ [lambda_min s1]"
    by (simp add: es(5) lg(5))
  have passed: "list_all (saddle_found (min_eig_num_tol options)) (collect min_eig_result lg)"
    using inv(2) assms(3) by (simp add: res saddle_found_def)
  show ?thesis
  proof (rule staircase_postI, goal_cases)
    case 1 show ?case using inv(4) assms(3) by (simp add: lam)
    case 2 show ?case using inv(5) by (simp add: out sc(2))
    case 3 show ?case using inv(6) by (simp add: out sc(3))
    case 4 show ?case using inv(7) by (simp add: out sc(4))
    case 5 show ?case using inv(10) by (simp add: out res)
    case 6 show ?case using inv(8) inv(10) by (simp add: sc(5) filter_converged [OF inv(2)] res)
    case 7 show ?case using inv(9) inv(10) by (simp add: sc(6) filter_converged [OF inv(2)] res)
    case 8 show ?case by (simp add: last_solved_def out)
    case 9 show ?case using passed inv(3) by (simp add: esc)
  qed
qed

lemma inv_imp_post:
  assumes "staircase_inv options s"
  shows "staircase_post options s"
proof (rule staircase_postI, goal_cases)
  note inv = staircase_invD [OF assms]
  case 1 show ?case by (rule inv(4))
  case 2 show ?case by (rule inv(5))
  case 3 show ?case by (rule inv(6))
  case 4 show ?case by (rule inv(7))
  case 5 show ?case by (rule inv(10))
  case 6 show ?case using inv(8) inv(10) by (simp add: filter_converged [OF inv(2)])
  case 7 show ?case using inv(9) inv(10) by (simp add: filter_converged [OF inv(2)])
  case 8 show ?case by (rule inv(11))
  case 9 show ?case using inv(2) inv(3) by (simp add: inv(1))
qed

lemma staircase_level_post:
  assumes "staircase_level E options r s = Inr (c, s')" and "staircase_inv options s"
  shows "if c = Continue then staircase_inv options s' else staircase_post options s'"
  using assms(1)
proof (cases rule: staircase_level_cases)
  case (not_converged s1)
  with assms(2) show ?thesis
    using level_not_converged [of options s E s1] by auto
next
  case (certified s1)
  with assms(2) show ?thesis
    using level_certified [of options s E s1 r] by auto
next
  case (aborted s1 e)
  then show ?thesis by simp
next
  case (escaped s1 Yplus lg)
  with assms(2) show ?thesis
    using level_escaped [of options s E s1 r Yplus lg] by auto
next
  case (stuck s1 Yplus lg)
  with assms(2) show ?thesis
    using level_stuck [of options s E s1 r Yplus lg] by auto
qed

text \<open>Partial correctness of the loop.\<close>

lemma staircase_post:
  assumes "staircase E options r s = Some (Inr s')" and "staircase_inv options s"
  shows "staircase_post options s'"
proof -
  have "\<forall>s'. y = Inr s' \<longrightarrow> staircase_inv options s \<longrightarrow> staircase_post options s'"
    if "staircase E options r s = Some y" for y
    using that
  proof (induction rule: staircase.raw_induct [rotated, consumes 1])
    case (1 f E options r s y)
    show ?case
    proof (intro allI impI)
      fix s' assume y: "y = Inr s'" and inv: "staircase_inv options s"
      show "staircase_post options s'"
      proof (cases "r \<le> rmax options")
        case False
        with "1.hyps" y inv show ?thesis
          by (simp add: inv_imp_post)
      next
        case True
        show ?thesis
        proof (cases "staircase_level E options r s")
          case (Inl e)
          with "1.hyps" True y show ?thesis by simp
        next
          case (Inr cs)
          obtain c s1 where cs: "cs = (c, s1)" by (cases cs)
          from staircase_level_post [OF Inr [unfolded cs] inv]
          have step: "if c = Continue then staircase_inv options s1 else staircase_post options s1" .
          show ?thesis
          proof (cases c)
            case Break
            with "1.hyps" True Inr cs y step show ?thesis by simp
          next
            case Continue
            with "1.hyps" True Inr cs y have "f E options (r + 1) s1 = Some (Inr s')"
              by simp
            from "1.IH" [OF this] Continue step show ?thesis by simp
          qed
        qed
      qed
    qed
  qed
  with assms show ?thesis by blast
qed



subsection \<open>Before and after the loop\<close>

lemma setup_fields:
  "status (SESync_setup E ms options Y0) = RS_ITER_LIMIT"
  "function_values (SESync_setup E ms options Y0) = []"
  "gradient_norms (SESync_setup E ms options Y0) = []"
  "elapsed_optimization_times (SESync_setup E ms options Y0) = []"
  "minimum_eigenvalues (SESync_setup E ms options Y0) = []"
  "minimum_eigenvalue_computation_times (SESync_setup E ms options Y0) = []"
  "Yopt (SESync_setup E ms options Y0) = Matrix_default"
  "problem (SESync_setup E ms options Y0) =
     set_relaxation_rank (r0 options)
       (SESyncProblem_new ms (formulation options) (use_Cholesky options) (precon options)
          (fresh_rank E))"
  "Y_cur (SESync_setup E ms options Y0) =
     (if msize Y0 \<noteq> 0 then Y0
      else if use_chordal_initialization options
           then chordal_initialization E (problem (SESync_setup E ms options Y0))
           else random_sample E (problem (SESync_setup E ms options Y0)))"
  by (simp_all add: SESync_setup_def Let_def split_def)

lemma setup_log:
  "collect TNT_seed (calls (SESync_setup E ms options Y0)) = []"
  "collect TNT_output (calls (SESync_setup E ms options Y0)) = []"
  "collect min_eig_result (calls (SESync_setup E ms options Y0)) = []"
  "collect escape_lambda (calls (SESync_setup E ms options Y0)) = []"
  "collect escape_result (calls (SESync_setup E ms options Y0)) = []"
  "collect round_solution_call (calls (SESync_setup E ms options Y0)) = []"
  "collect initialization_call (calls (SESync_setup E ms options Y0)) =
     (if msize Y0 \<noteq> 0 then []
      else if use_chordal_initialization options then [Call_chordal_initialization]
      else [Call_random_sample])"
  by (simp_all add: SESync_setup_def Let_def split_def)

lemma setup_inv: "staircase_inv options (SESync_setup E ms options Y0)"
  by (simp add: staircase_inv_def setup_fields(1-7) setup_log last_solved_def)

lemma finish_fields:
  assumes "SESync_finish E options s = Inr fin"
  shows "status fin = status s"
    and "function_values fin = function_values s"
    and "gradient_norms fin = gradient_norms s"
    and "elapsed_optimization_times fin = elapsed_optimization_times s"
    and "minimum_eigenvalues fin = minimum_eigenvalues s"
    and "minimum_eigenvalue_computation_times fin = minimum_eigenvalue_computation_times s"
    and "Yopt fin = Yopt s"
    and "problem fin = problem s"
    and "xhat fin = round_solution E (problem s) (Yopt s)"
    and "collect TNT_seed (calls fin) = collect TNT_seed (calls s)"
    and "collect TNT_output (calls fin) = collect TNT_output (calls s)"
    and "collect min_eig_result (calls fin) = collect min_eig_result (calls s)"
    and "collect escape_lambda (calls fin) = collect escape_lambda (calls s)"
    and "collect escape_result (calls fin) = collect escape_result (calls s)"
    and "collect initialization_call (calls fin) = collect initialization_call (calls s)"
    and "collect round_solution_call (calls fin) = collect round_solution_call (calls s) @ [Yopt s]"
  using assms
  by (auto simp: SESync_finish_def Let_def split: if_splits sum.splits)

lemma finish_objective:
  assumes "SESync_finish E options s = Inr fin"
  shows "if formulation options = Simplified
         then \<exists>R. block (xhat fin) 0 (num_poses E (problem fin)) (dimension E (problem fin))
                    (dimension E (problem fin) * num_poses E (problem fin)) = Inr R \<and>
                  Fxhat fin = evaluate_objective E (problem fin) R
         else Fxhat fin = evaluate_objective E (problem fin) (xhat fin)"
  using assms
  by (auto simp: SESync_finish_def Let_def split: if_splits sum.splits)

lemma finish_failure: "SESync_finish E options s = Inl e \<Longrightarrow> e = EigenAssertion"
  by (auto simp: SESync_finish_def Let_def block_def split: if_splits sum.splits)

lemma finish_post:
  assumes "SESync_finish E options s = Inr fin" and "staircase_post options s"
  shows "staircase_post options fin"
  using assms(2) unfolding staircase_post_def
  by (simp only: finish_fields [OF assms(1)] last_solved_def)

lemma run_cases:
  assumes "SESync_run E ms options Y0 = Some (Inr fin)"
  obtains s where "staircase E options (r0 options) (SESync_setup E ms options Y0) = Some (Inr s)"
    and "SESync_finish E options s = Inr fin"
  using assms
  by (auto simp: SESync_run_def split: option.splits sum.splits)

lemma run_post:
  assumes "SESync_run E ms options Y0 = Some (Inr fin)"
  shows "staircase_post options fin"
  using assms
proof (cases rule: run_cases)
  case (1 s)
  from staircase_post [OF 1(1) setup_inv] have "staircase_post options s" .
  with 1(2) show ?thesis by (rule finish_post)
qed


lemma SESync_Inr:
  "SESync E ms options Y0 = Some (Inr res) \<longleftrightarrow>
     (\<exists>fin. SESync_run E ms options Y0 = Some (Inr fin) \<and> res = SESyncResult.truncate fin)"
  by (cases "SESync_run E ms options Y0")
     (auto simp: SESync_def map_sum_def split: sum.splits)

lemma truncate_fields:
  "status (SESyncResult.truncate s) = status s"
  "Yopt (SESyncResult.truncate s) = Yopt s"
  "xhat (SESyncResult.truncate s) = xhat s"
  "Fxhat (SESyncResult.truncate s) = Fxhat s"
  "function_values (SESyncResult.truncate s) = function_values s"
  "gradient_norms (SESyncResult.truncate s) = gradient_norms s"
  "elapsed_optimization_times (SESyncResult.truncate s) = elapsed_optimization_times s"
  "minimum_eigenvalues (SESyncResult.truncate s) = minimum_eigenvalues s"
  "minimum_eigenvalue_computation_times (SESyncResult.truncate s) =
     minimum_eigenvalue_computation_times s"
  by (simp_all add: SESyncResult.truncate_def)

subsection \<open>Causes and statuses\<close>





subsection \<open>More about the loop\<close>


text \<open>What one level adds to the log, and how it leaves the status.\<close>

lemma staircase_level_log:
  assumes "staircase_level E options r s = Inr (c, s')"
  shows "collect initialization_call (calls s') = collect initialization_call (calls s) \<and>
         collect round_solution_call (calls s') = collect round_solution_call (calls s) \<and>
         collect TNT_seed (calls s') = collect TNT_seed (calls s) @ [Y_cur s] \<and>
         length (collect TNT_output (calls s')) = Suc (length (collect TNT_output (calls s))) \<and>
         (c = Break \<longrightarrow> status s' \<noteq> RS_ITER_LIMIT) \<and>
         (c = Continue \<longrightarrow> status s' = status s)"
  using assms
proof (cases rule: staircase_level_cases)
  case (not_converged s1)
  from solved_and_checked_log [OF not_converged(1)] solved_and_checked(1) [OF not_converged(1)]
    not_converged(2)
  show ?thesis by simp
next
  case (certified s1)
  from solved_and_checked_log [OF certified(1)] solved_and_checked(1) [OF certified(1)]
    certified(3)
  show ?thesis by simp
next
  case (aborted s1 e)
  then show ?thesis by simp
next
  case (escaped s1 Yplus lg)
  from solved_and_checked_log [OF escaped(1)] solved_and_checked(1) [OF escaped(1)]
    escape_saddle_Inr [OF escaped(3)] escaped(4)
  show ?thesis by simp
next
  case (stuck s1 Yplus lg)
  from solved_and_checked_log [OF stuck(1)] solved_and_checked(1) [OF stuck(1)]
    escape_saddle_Inr [OF stuck(3)] stuck(4)
  show ?thesis by simp
qed

lemma staircase_log:
  assumes "staircase E options r s = Some (Inr s')"
  shows "collect initialization_call (calls s') = collect initialization_call (calls s)"
    and "collect round_solution_call (calls s') = collect round_solution_call (calls s)"
    and "\<exists>more. collect TNT_seed (calls s') = collect TNT_seed (calls s) @ more"
proof -
  have "\<forall>s'. y = Inr s' \<longrightarrow>
          collect initialization_call (calls s') = collect initialization_call (calls s) \<and>
          collect round_solution_call (calls s') = collect round_solution_call (calls s) \<and>
          (\<exists>more. collect TNT_seed (calls s') = collect TNT_seed (calls s) @ more)"
    if "staircase E options r s = Some y" for y
    using that
  proof (induction rule: staircase.raw_induct [rotated, consumes 1])
    case (1 f E options r s y)
    show ?case
    proof (intro allI impI)
      fix s' assume y: "y = Inr s'"
      show "collect initialization_call (calls s') = collect initialization_call (calls s) \<and>
          collect round_solution_call (calls s') = collect round_solution_call (calls s) \<and>
          (\<exists>more. collect TNT_seed (calls s') = collect TNT_seed (calls s) @ more)"
      proof (cases "r \<le> rmax options")
        case False
        with "1.hyps" y show ?thesis by simp
      next
        case True
        show ?thesis
        proof (cases "staircase_level E options r s")
          case (Inl e)
          with "1.hyps" True y show ?thesis by simp
        next
          case (Inr cs)
          obtain c s1 where cs: "cs = (c, s1)" by (cases cs)
          note lv = staircase_level_log [OF Inr [unfolded cs]]
          show ?thesis
          proof (cases c)
            case Break
            with "1.hyps" True Inr cs y have "s' = s1" by simp
            with lv show ?thesis by simp
          next
            case Continue
            with "1.hyps" True Inr cs y have "f E options (r + 1) s1 = Some (Inr s')"
              by simp
            from "1.IH" [OF this] lv show ?thesis by auto
          qed
        qed
      qed
    qed
  qed
  with assms show "collect initialization_call (calls s') = collect initialization_call (calls s)"
    and "collect round_solution_call (calls s') = collect round_solution_call (calls s)"
    and "\<exists>more. collect TNT_seed (calls s') = collect TNT_seed (calls s) @ more"
    by blast+
qed

text \<open>The first level of a loop that is entered seeds the solver with the current iterate.\<close>

lemma staircase_first_seed:
  assumes "staircase E options r s = Some (Inr s')" and "r \<le> rmax options"
  shows "\<exists>more. collect TNT_seed (calls s') = collect TNT_seed (calls s) @ Y_cur s # more"
proof (cases "staircase_level E options r s")
  case (Inl e)
  with assms show ?thesis
    by (subst (asm) staircase.simps) simp
next
  case (Inr cs)
  obtain c s1 where cs: "cs = (c, s1)" by (cases cs)
  note lv = staircase_level_log [OF Inr [unfolded cs]]
  show ?thesis
  proof (cases c)
    case Break
    with assms Inr cs have "s' = s1"
      by (subst (asm) staircase.simps) simp
    with lv show ?thesis by simp
  next
    case Continue
    with assms Inr cs have "staircase E options (r + 1) s1 = Some (Inr s')"
      by (subst (asm) staircase.simps) simp
    from staircase_log(3) [OF this] lv show ?thesis by auto
  qed
qed


text \<open>The division is guarded by a positive tolerance.\<close>

lemma staircase_level_division:
  assumes "staircase_level E options r s = Inl DivisionByZero"
  shows "\<exists>s1. check_second_order E options (run_TNT E options s) = (True, s1) \<and>
              lambda_min s1 = 0 \<and> min_eig_num_tol options \<le> 0"
  using assms
proof (cases rule: staircase_level_cases)
  case (aborted s1 e)
  from aborted(3,4) have "lambda_min s1 = 0"
    by (auto dest: escape_saddle_DivisionByZero)
  with aborted(1,2) show ?thesis by simp
qed simp_all

lemma staircase_no_division:
  assumes "0 < min_eig_num_tol options"
  shows "staircase E options r s \<noteq> Some (Inl DivisionByZero)"
proof
  assume run: "staircase E options r s = Some (Inl DivisionByZero)"
  have "y = Inl DivisionByZero \<longrightarrow> \<not> 0 < min_eig_num_tol options"
    if "staircase E options r s = Some y" for y
    using that
  proof (induction rule: staircase.raw_induct [rotated, consumes 1])
    case (1 f E options r s y)
    show ?case
    proof
      assume y: "y = Inl DivisionByZero"
      show "\<not> 0 < min_eig_num_tol options"
      proof (cases "r \<le> rmax options")
        case False
        with "1.hyps" y show ?thesis by simp
      next
        case True
        show ?thesis
        proof (cases "staircase_level E options r s")
          case (Inl e)
          with "1.hyps" True y have "staircase_level E options r s = Inl DivisionByZero"
            by simp
          from staircase_level_division [OF this] show ?thesis by auto
        next
          case (Inr cs)
          obtain c s1 where cs: "cs = (c, s1)" by (cases cs)
          show ?thesis
          proof (cases c)
            case Break
            with "1.hyps" True Inr cs y show ?thesis by simp
          next
            case Continue
            with "1.hyps" True Inr cs y have "f E options (r + 1) s1 = Some (Inl DivisionByZero)"
              by simp
            from "1.IH" [OF this] show ?thesis by simp
          qed
        qed
      qed
    qed
  qed
  from this [OF run] assms show False by simp
qed

lemma post_lengths:
  assumes "staircase_post options s"
  shows "status s = EIG_IMPRECISION \<longrightarrow>
           length (collect min_eig_result (calls s)) =
             Suc (length (filter fst (collect min_eig_result (calls s))))"
    and "status s \<noteq> EIG_IMPRECISION \<longrightarrow>
           length (collect min_eig_result (calls s)) =
             length (filter fst (collect min_eig_result (calls s)))"
proof -
  let ?res = "collect min_eig_result (calls s)"
  let ?eps = "min_eig_num_tol options"
  have split: "filter fst ?res = filter fst (butlast ?res) @ filter fst [last ?res]" if "?res \<noteq> []"
    using that by (metis append_butlast_last_id filter_append)
  show "status s = EIG_IMPRECISION \<longrightarrow> length ?res = Suc (length (filter fst ?res))"
  proof
    assume st: "status s = EIG_IMPRECISION"
    with assms have ne: "?res \<noteq> []" and l: "\<not> fst (last ?res)"
      and b: "list_all (saddle_found ?eps) (butlast ?res)"
      by (simp_all add: staircase_post_def)
    from ne have "length ?res = Suc (length (butlast ?res))"
      by simp
    then show "length ?res = Suc (length (filter fst ?res))"
      using l by (simp add: split [OF ne] filter_converged [OF b])
  qed
  show "status s \<noteq> EIG_IMPRECISION \<longrightarrow> length ?res = length (filter fst ?res)"
  proof
    assume st: "status s \<noteq> EIG_IMPRECISION"
    show "length ?res = length (filter fst ?res)"
    proof (cases "status s")
      case GLOBAL_OPT
      with assms have ne: "?res \<noteq> []" and l: "fst (last ?res)"
        and b: "list_all (saddle_found ?eps) (butlast ?res)"
        by (simp_all add: staircase_post_def)
      from ne have "length ?res = Suc (length (butlast ?res))"
        by simp
      then show ?thesis
        using l by (simp add: split [OF ne] filter_converged [OF b])
    next
      case SADDLE_POINT
      with assms have "list_all (saddle_found ?eps) ?res"
        by (simp add: staircase_post_def)
      then show ?thesis by (simp add: filter_converged)
    next
      case EIG_IMPRECISION
      with st show ?thesis by simp
    next
      case RS_ITER_LIMIT
      with assms have "list_all (saddle_found ?eps) ?res"
        by (simp add: staircase_post_def)
      then show ?thesis by (simp add: filter_converged)
    qed
  qed
qed

text \<open>The shapes match exactly when no assertion of the block assignments fails.\<close>

lemma escape_saddle_assertion_iff:
  "escape_saddle E P M lam v tol Yplus lg = Inl EigenAssertion \<longleftrightarrow>
     \<not> (unat (relaxation_rank P) = Suc (nrows M) \<and> length v = ncols M)"
proof (cases "unat (relaxation_rank P) = Suc (nrows M) \<and> length v = ncols M")
  case True
  then have s: "unat (relaxation_rank P) = Suc (nrows M)" "length v = ncols M"
    by simp_all
  show ?thesis
  proof (cases "lam = 0")
    case zero: True
    have "escape_saddle E P M lam v tol Yplus lg = Inl DivisionByZero"
      unfolding escape_saddle_def Let_def escape_shapes [OF s] by (simp add: zero)
    with True show ?thesis
      by simp
  next
    case False
    from escape_saddle_char [OF False s, of E tol Yplus lg] s show ?thesis
      by auto
  qed
next
  case False
  have "relaxation_rank P \<noteq> 0 \<Longrightarrow> unat (relaxation_rank P - 1) = unat (relaxation_rank P) - 1"
    by (rule unat_minus_one)
  moreover have "relaxation_rank P = 0 \<Longrightarrow> unat (relaxation_rank P) = 0"
    by simp
  ultimately have "assign_topRows (unat (relaxation_rank P - 1))
      (Zero (unat (relaxation_rank P)) (ncols M)) M = Inl EigenAssertion \<or>
    assign_bottomRow (Zero (unat (relaxation_rank P)) (ncols M)) v = Inl EigenAssertion"
    using False
    by (cases "relaxation_rank P = 0")
       (auto simp: assign_topRows_def assign_bottomRow_def Zero_def nrows_def unat_eq_zero)
  then have "escape_saddle E P M lam v tol Yplus lg = Inl EigenAssertion"
    by (auto simp: escape_saddle_def Let_def assign_topRows_def assign_bottomRow_def
        split: sum.splits if_splits)
  with False show ?thesis by simp
qed

section \<open>The claims\<close>

lemmas demo_defs = demo_env_def demo_opts_def descending_def every_level_def minus_one_def
  climbing_env_def

lemmas model_defs = SESync_run_def SESync_setup_def SESync_finish_def staircase_level_def
  run_TNT_def check_second_order_def record_eigenvalue_def augment_rank_def escape_saddle_def
  TNT_params_def set_relaxation_rank_def SESyncProblem_new_def
  assign_topRows_def assign_bottomRow_def block_def Zero_def scale_def nrows_def msize_def
  Matrix_default_def alpha_min_def Let_def

subsection \<open>Computed runs\<close>

lemma run_certified:
  "\<exists>fin. SESync_run certified_env [] (demo_opts 1 3 1 (1 / 2)) Matrix_default = Some (Inr fin) \<and>
         status fin = GLOBAL_OPT \<and> relaxation_rank (problem fin) = 2 \<and>
         minimum_eigenvalues fin = [- 1, 0] \<and> length (function_values fin) = 2"
  by (simp add: demo_defs certified_env_def zero_above_first_def
        model_defs line_search.simps staircase.simps)

lemma run_stuck:
  "\<exists>fin. SESync_run stuck_env [] (demo_opts 1 3 1 (1 / 100000000)) Matrix_default = Some (Inr fin) \<and>
         status fin = SADDLE_POINT \<and> relaxation_rank (problem fin) = 2 \<and>
         minimum_eigenvalues fin = [- 1] \<and> length (function_values fin) = 1 \<and>
         collect min_eig_result (calls fin) = [(True, - 1)]"
  by (simp add: demo_defs stuck_env_def flat_def model_defs line_search.simps staircase.simps)

lemma run_imprecise:
  "\<exists>fin. SESync_run imprecise_env [] (demo_opts 1 3 1 (1 / 2)) Matrix_default = Some (Inr fin) \<and>
         status fin = EIG_IMPRECISION \<and> relaxation_rank (problem fin) = 2 \<and>
         minimum_eigenvalues fin = [- 1] \<and> length (function_values fin) = 2"
  by (simp add: demo_defs imprecise_env_def first_level_only_def
        model_defs line_search.simps staircase.simps)

lemma run_climbing:
  "\<exists>fin. SESync_run climbing_env [] (demo_opts 1 2 1 (1 / 2)) Matrix_default = Some (Inr fin) \<and>
         status fin = RS_ITER_LIMIT \<and> relaxation_rank (problem fin) = 3 \<and>
         minimum_eigenvalues fin = [- 1, - 1] \<and> length (function_values fin) = 2"
  by (simp add: demo_defs model_defs line_search.simps staircase.simps)

lemma run_degenerate:
  "SESync_run degenerate_env [] (demo_opts 1 2 0 (1 / 2)) Matrix_default = Some (Inl DivisionByZero)"
  by (simp add: demo_defs degenerate_env_def zero_eigenvalue_def
        model_defs line_search.simps staircase.simps)

lemma run_skipped:
  "\<exists>fin. SESync_run climbing_env [] (demo_opts_explicit 3 2 1 (1 / 2)) Matrix_default =
           Some (Inr fin) \<and>
         status fin = RS_ITER_LIMIT \<and> relaxation_rank (problem fin) = 3"
  by (simp add: demo_defs demo_opts_explicit_def model_defs line_search.simps staircase.simps)


text \<open>
  With \<open>r0\<close> above \<open>rmax\<close> and the Simplified formulation, the rounded solution of this
  environment is the empty matrix, and the block taken from it does not exist.
\<close>

lemma run_skipped_simplified:
  "SESync_run climbing_env [] (demo_opts 3 2 1 (1 / 2)) Matrix_default = Some (Inl EigenAssertion)"
  by (simp add: demo_defs model_defs line_search.simps staircase.simps)



text \<open>
  Claim C2. The claim has the rank of the problem set to \<open>r + 1\<close> only when the escape
  succeeds, and left at \<open>r\<close> when it fails. The source sets it before the call, because
  \<open>escape_saddle\<close> reads the rank of the next level from the problem. What holds: at a
  level \<open>r\<close> whose eigenvalue computation converged with an eigenvalue at or below the
  negated tolerance, the controller sets the rank of the problem to \<open>r + 1\<close> and then calls
  \<open>escape_saddle\<close> on the problem at that rank; if the escape succeeds, the current
  iterate becomes the returned point, the status is untouched and the loop goes on with
  \<open>r + 1\<close>; if it fails, the status becomes \<open>SADDLE_POINT\<close> and the loop stops. In both
  cases the call of \<open>set_relaxation_rank\<close> precedes the call of \<open>escape_saddle\<close> in the log,
  and the rank of the problem after the level is \<open>r + 1\<close>.
\<close>

theorem rank_augmented_before_escape:
  assumes "check_second_order E options (run_TNT E options s) = (True, s1)"
    and "lambda_min s1 \<le> - min_eig_num_tol options"
    and "staircase_level E options r s = Inr (c, s')"
  shows "relaxation_rank (problem s') = r + 1 \<and>
         (\<exists>rest. calls s' =
            calls s1 @ Call_set_relaxation_rank (r + 1) #
              Enter_escape_saddle (Yopt s1) (lambda_min s1) (v_min s1) (grad_norm_tol options) #
              rest) \<and>
         (\<exists>ok Yplus lg.
            escape_saddle E (set_relaxation_rank (r + 1) (problem s)) (Yopt s1) (lambda_min s1)
              (v_min s1) (grad_norm_tol options) Matrix_default
              (calls s1 @ [Call_set_relaxation_rank (r + 1)]) = Inr (ok, Yplus, lg) \<and>
            (if ok then c = Continue \<and> Y_cur s' = Yplus \<and> status s' = status s
             else c = Break \<and> status s' = SADDLE_POINT)) \<and>
         (r \<le> rmax options \<longrightarrow>
            staircase E options r s =
              (if c = Continue then staircase E options (r + 1) s' else Some (Inr s')))"
proof -
  note sc = solved_and_checked [OF assms(1)]
  have loop: "staircase E options r s =
      (if c = Continue then staircase E options (r + 1) s' else Some (Inr s'))"
    if "r \<le> rmax options"
    using that assms(3) by (subst staircase.simps) (cases c; simp)
  from assms(3) show ?thesis
  proof (cases rule: staircase_level_cases)
    case (not_converged t)
    with assms(1) show ?thesis by simp
  next
    case (certified t)
    with assms(1,2) show ?thesis by simp
  next
    case (aborted t e)
    then show ?thesis by simp
  next
    case (escaped t Yplus lg)
    with assms(1) have t: "t = s1" by simp
    from escaped(3,4) loop escape_saddle_Inr(9) [OF escaped(3)] show ?thesis
      unfolding t sc(7)
      by (auto simp: set_relaxation_rank_def sc(1))
  next
    case (stuck t Yplus lg)
    with assms(1) have t: "t = s1" by simp
    from stuck(3,4) loop escape_saddle_Inr(9) [OF stuck(3)] show ?thesis
      unfolding t sc(7)
      by (auto simp: set_relaxation_rank_def)
  qed
qed

theorem rank_augmented_before_escape_witness:
  "check_second_order climbing_env (demo_opts 1 2 1 (1 / 2))
     (run_TNT climbing_env (demo_opts 1 2 1 (1 / 2)) (demo_start climbing_env (demo_opts 1 2 1 (1 / 2)))) =
     (True, demo_checked climbing_env (demo_opts 1 2 1 (1 / 2))) \<and>
   lambda_min (demo_checked climbing_env (demo_opts 1 2 1 (1 / 2))) \<le>
     - min_eig_num_tol (demo_opts 1 2 1 (1 / 2)) \<and>
   staircase_level climbing_env (demo_opts 1 2 1 (1 / 2)) 1
     (demo_start climbing_env (demo_opts 1 2 1 (1 / 2))) =
     Inr (Continue, demo_level_end climbing_env (demo_opts 1 2 1 (1 / 2))) \<and>
   relaxation_rank (problem (demo_level_end climbing_env (demo_opts 1 2 1 (1 / 2)))) = 1 + 1 \<and>
   check_second_order stuck_env (demo_opts 1 3 1 (1 / 100000000))
     (run_TNT stuck_env (demo_opts 1 3 1 (1 / 100000000))
        (demo_start stuck_env (demo_opts 1 3 1 (1 / 100000000)))) =
     (True, demo_checked stuck_env (demo_opts 1 3 1 (1 / 100000000))) \<and>
   lambda_min (demo_checked stuck_env (demo_opts 1 3 1 (1 / 100000000))) \<le>
     - min_eig_num_tol (demo_opts 1 3 1 (1 / 100000000)) \<and>
   staircase_level stuck_env (demo_opts 1 3 1 (1 / 100000000)) 1
     (demo_start stuck_env (demo_opts 1 3 1 (1 / 100000000))) =
     Inr (Break, demo_level_end stuck_env (demo_opts 1 3 1 (1 / 100000000))) \<and>
   relaxation_rank (problem (demo_level_end stuck_env (demo_opts 1 3 1 (1 / 100000000)))) = 1 + 1 \<and>
   status (demo_level_end stuck_env (demo_opts 1 3 1 (1 / 100000000))) = SADDLE_POINT"
proof -
  have a1: "check_second_order climbing_env (demo_opts 1 2 1 (1 / 2))
     (run_TNT climbing_env (demo_opts 1 2 1 (1 / 2)) (demo_start climbing_env (demo_opts 1 2 1 (1 / 2)))) =
     (True, demo_checked climbing_env (demo_opts 1 2 1 (1 / 2)))"
    by (simp add: demo_defs demo_checked_def demo_start_def model_defs prod_eq_iff)
  have a2: "lambda_min (demo_checked climbing_env (demo_opts 1 2 1 (1 / 2))) \<le>
     - min_eig_num_tol (demo_opts 1 2 1 (1 / 2))"
    by (simp add: demo_defs demo_checked_def demo_start_def model_defs)
  have a3: "staircase_level climbing_env (demo_opts 1 2 1 (1 / 2)) 1
     (demo_start climbing_env (demo_opts 1 2 1 (1 / 2))) =
     Inr (Continue, demo_level_end climbing_env (demo_opts 1 2 1 (1 / 2)))"
    by (simp add: demo_defs demo_level_end_def demo_start_def model_defs line_search.simps)
  have b1: "check_second_order stuck_env (demo_opts 1 3 1 (1 / 100000000))
     (run_TNT stuck_env (demo_opts 1 3 1 (1 / 100000000))
        (demo_start stuck_env (demo_opts 1 3 1 (1 / 100000000)))) =
     (True, demo_checked stuck_env (demo_opts 1 3 1 (1 / 100000000)))"
    by (simp add: demo_defs stuck_env_def flat_def demo_checked_def demo_start_def
        model_defs prod_eq_iff)
  have b2: "lambda_min (demo_checked stuck_env (demo_opts 1 3 1 (1 / 100000000))) \<le>
     - min_eig_num_tol (demo_opts 1 3 1 (1 / 100000000))"
    by (simp add: demo_defs stuck_env_def flat_def demo_checked_def demo_start_def model_defs)
  have b3: "staircase_level stuck_env (demo_opts 1 3 1 (1 / 100000000)) 1
     (demo_start stuck_env (demo_opts 1 3 1 (1 / 100000000))) =
     Inr (Break, demo_level_end stuck_env (demo_opts 1 3 1 (1 / 100000000)))"
    by (simp add: demo_defs stuck_env_def flat_def demo_level_end_def demo_start_def
        model_defs line_search.simps)
  from rank_augmented_before_escape [OF a1 a2 a3]
  have a4: "relaxation_rank (problem (demo_level_end climbing_env (demo_opts 1 2 1 (1 / 2)))) = 1 + 1"
    by blast
  from rank_augmented_before_escape [OF b1 b2 b3]
  have b4: "relaxation_rank (problem (demo_level_end stuck_env (demo_opts 1 3 1 (1 / 100000000)))) = 1 + 1"
    and b5: "status (demo_level_end stuck_env (demo_opts 1 3 1 (1 / 100000000))) = SADDLE_POINT"
    by (auto split: if_splits)
  from a1 a2 a3 a4 b1 b2 b3 b4 b5 show ?thesis
    by blast
qed

text \<open>
  The run that refutes the wording of C2: in \<open>stuck_env\<close> the staircase starts at level 1,
  solves that one level, the escape fails, the status is \<open>SADDLE_POINT\<close>, the rank was
  set to 1 and then to 2, and the rank of the problem is 2, not 1.
\<close>

theorem rank_unchanged_after_failed_escape_counterexample:
  "r0 (demo_opts 1 3 1 (1 / 100000000)) = 1 \<and>
   map_option (map_sum id (length \<circ> function_values))
     (SESync_run stuck_env [] (demo_opts 1 3 1 (1 / 100000000)) Matrix_default) = Some (Inr 1) \<and>
   map_option (map_sum id (collect escape_result \<circ> calls))
     (SESync_run stuck_env [] (demo_opts 1 3 1 (1 / 100000000)) Matrix_default) =
     Some (Inr [False]) \<and>
   map_option (map_sum id status)
     (SESync_run stuck_env [] (demo_opts 1 3 1 (1 / 100000000)) Matrix_default) =
     Some (Inr SADDLE_POINT) \<and>
   map_option (map_sum id (collect set_rank_call \<circ> calls))
     (SESync_run stuck_env [] (demo_opts 1 3 1 (1 / 100000000)) Matrix_default) =
     Some (Inr [1, 2]) \<and>
   map_option (map_sum id (relaxation_rank \<circ> problem))
     (SESync_run stuck_env [] (demo_opts 1 3 1 (1 / 100000000)) Matrix_default) = Some (Inr 2)"
  by (simp add: demo_defs stuck_env_def flat_def model_defs line_search.simps staircase.simps)

text \<open>
  Claim C3. The claim certifies the iterate when the eigenvalue is at or above the negated
  tolerance, the boundary included. The source compares strictly. What holds: at a level
  that the loop enters, if the eigenvalue computation converges and the eigenvalue is
  above the negated tolerance, the loop ends at this level with the status \<open>GLOBAL_OPT\<close>,
  the iterate of this level as \<open>Yopt\<close>, the eigenvalue recorded, the problem untouched and
  no call of \<open>escape_saddle\<close>; the post-processing keeps the status and the iterate.
\<close>

theorem certificate_passes_above_negated_tolerance:
  assumes "r \<le> rmax options"
    and "check_second_order E options (run_TNT E options s) = (True, s1)"
    and "- min_eig_num_tol options < lambda_min s1"
  shows "\<exists>s'. staircase E options r s = Some (Inr s') \<and>
              status s' = GLOBAL_OPT \<and>
              Yopt s' = Yopt s1 \<and>
              problem s' = problem s \<and>
              minimum_eigenvalues s' = minimum_eigenvalues s @ [lambda_min s1] \<and>
              collect escape_lambda (calls s') = collect escape_lambda (calls s) \<and>
              (\<forall>fin. SESync_finish E options s' = Inr fin \<longrightarrow>
                 status fin = GLOBAL_OPT \<and> Yopt fin = Yopt s1)"
proof -
  note sc = solved_and_checked [OF assms(2)]
  note lg = solved_and_checked_log [OF assms(2)]
  let ?s' = "(record_eigenvalue E r s1)\<lparr>status := GLOBAL_OPT\<rparr>"
  have lv: "staircase_level E options r s = Inr (Break, ?s')"
    using assms(2,3) by (simp add: staircase_level_def Let_def)
  have loop: "staircase E options r s = Some (Inr ?s')"
    using assms(1) lv by (subst staircase.simps) simp
  have me: "minimum_eigenvalues ?s' = minimum_eigenvalues s @ [lambda_min s1]"
    by (simp add: record_eigenvalue_def sc(5))
  have fin: "status fin = GLOBAL_OPT \<and> Yopt fin = Yopt s1"
    if "SESync_finish E options ?s' = Inr fin" for fin
    using finish_fields(1,7) [OF that] by simp
  show ?thesis
    using loop me fin
    by (intro exI [of _ ?s']) (simp add: sc(7) lg(5))
qed

theorem certificate_passes_above_negated_tolerance_witness:
  "(1 :: 32 word) \<le> rmax (demo_opts 1 3 1 (1 / 2)) \<and>
   check_second_order degenerate_env (demo_opts 1 3 1 (1 / 2))
     (run_TNT degenerate_env (demo_opts 1 3 1 (1 / 2))
        (demo_start degenerate_env (demo_opts 1 3 1 (1 / 2)))) =
     (True, demo_checked degenerate_env (demo_opts 1 3 1 (1 / 2))) \<and>
   - min_eig_num_tol (demo_opts 1 3 1 (1 / 2)) <
     lambda_min (demo_checked degenerate_env (demo_opts 1 3 1 (1 / 2))) \<and>
   (\<exists>s'. staircase degenerate_env (demo_opts 1 3 1 (1 / 2)) 1
            (demo_start degenerate_env (demo_opts 1 3 1 (1 / 2))) = Some (Inr s') \<and>
         status s' = GLOBAL_OPT \<and> minimum_eigenvalues s' = [0])"
proof -
  have h1: "(1 :: 32 word) \<le> rmax (demo_opts 1 3 1 (1 / 2))"
    by (simp add: demo_opts_def)
  have h2: "check_second_order degenerate_env (demo_opts 1 3 1 (1 / 2))
     (run_TNT degenerate_env (demo_opts 1 3 1 (1 / 2))
        (demo_start degenerate_env (demo_opts 1 3 1 (1 / 2)))) =
     (True, demo_checked degenerate_env (demo_opts 1 3 1 (1 / 2)))"
    by (simp add: demo_defs degenerate_env_def zero_eigenvalue_def demo_checked_def demo_start_def
        model_defs prod_eq_iff)
  have h3: "- min_eig_num_tol (demo_opts 1 3 1 (1 / 2)) <
     lambda_min (demo_checked degenerate_env (demo_opts 1 3 1 (1 / 2)))"
    by (simp add: demo_defs degenerate_env_def zero_eigenvalue_def demo_checked_def demo_start_def
        model_defs)
  have v: "lambda_min (demo_checked degenerate_env (demo_opts 1 3 1 (1 / 2))) = 0"
    "minimum_eigenvalues (demo_start degenerate_env (demo_opts 1 3 1 (1 / 2))) = []"
    by (simp_all add: demo_defs degenerate_env_def zero_eigenvalue_def demo_checked_def demo_start_def
        model_defs)
  from certificate_passes_above_negated_tolerance [OF h1 h2 h3] v
  have "\<exists>s'. staircase degenerate_env (demo_opts 1 3 1 (1 / 2)) 1
            (demo_start degenerate_env (demo_opts 1 3 1 (1 / 2))) = Some (Inr s') \<and>
         status s' = GLOBAL_OPT \<and> minimum_eigenvalues s' = [0]"
    by auto
  with h1 h2 h3 show ?thesis
    by blast
qed

text \<open>
  The run that refutes the wording of C3 at the boundary: in \<open>climbing_env\<close> with the
  tolerance 1, the eigenvalue computation converges with the eigenvalue \<open>- 1\<close> at both
  levels, and the run ends with \<open>RS_ITER_LIMIT\<close>: neither level was certified.
\<close>

theorem boundary_eigenvalue_not_certified_counterexample:
  "min_eig_num_tol (demo_opts 1 2 1 (1 / 2)) = 1 \<and>
   map_option (map_sum id (collect min_eig_result \<circ> calls))
     (SESync_run climbing_env [] (demo_opts 1 2 1 (1 / 2)) Matrix_default) =
     Some (Inr [(True, - 1), (True, - 1)]) \<and>
   map_option (map_sum id status)
     (SESync_run climbing_env [] (demo_opts 1 2 1 (1 / 2)) Matrix_default) =
     Some (Inr RS_ITER_LIMIT)"
  by (simp add: demo_defs model_defs line_search.simps staircase.simps)





text \<open>
  Claim C6. In every result that \<open>SESync\<close> returns, whatever its status, the rounded
  solution is \<open>round_solution\<close> of the returned iterate \<open>Yopt\<close> (the one call of
  \<open>round_solution\<close> of the run, made on the problem in its final state), and the recorded
  objective value of the rounded solution is the objective at the rounded solution, or,
  under the Simplified formulation, at its block of \<open>dimension\<close> rows and
  \<open>dimension * num_poses\<close> columns that starts at column \<open>num_poses\<close>.
\<close>

theorem rounding_of_final_iterate:
  assumes "SESync E ms options Y0 = Some (Inr res)"
  shows "\<exists>fin. SESync_run E ms options Y0 = Some (Inr fin) \<and>
           res = SESyncResult.truncate fin \<and>
           xhat res = round_solution E (problem fin) (Yopt res) \<and>
           collect round_solution_call (calls fin) = [Yopt res] \<and>
           (if formulation options = Simplified
            then \<exists>R. block (xhat res) 0 (num_poses E (problem fin)) (dimension E (problem fin))
                       (dimension E (problem fin) * num_poses E (problem fin)) = Inr R \<and>
                     Fxhat res = evaluate_objective E (problem fin) R
            else Fxhat res = evaluate_objective E (problem fin) (xhat res))"
proof -
  from assms obtain fin where run: "SESync_run E ms options Y0 = Some (Inr fin)"
    and res: "res = SESyncResult.truncate fin"
    by (auto simp: SESync_Inr)
  from run obtain s where
    loop: "staircase E options (r0 options) (SESync_setup E ms options Y0) = Some (Inr s)"
    and fin: "SESync_finish E options s = Inr fin"
    by (rule run_cases)
  note ff = finish_fields [OF fin]
  have x: "xhat fin = round_solution E (problem fin) (Yopt fin)"
    by (simp add: ff(7) ff(8) ff(9))
  have "collect round_solution_call (calls s) = []"
    using staircase_log(2) [OF loop] by (simp add: setup_log)
  then have r: "collect round_solution_call (calls fin) = [Yopt fin]"
    by (simp add: ff(16) ff(7))
  show ?thesis
    using run x r finish_objective [OF fin]
    by (intro exI [of _ fin]) (auto simp: res truncate_fields split: if_splits)
qed

theorem rounding_of_final_iterate_witness:
  "(\<exists>res fin. SESync certified_env [] (demo_opts 1 3 1 (1 / 2)) Matrix_default = Some (Inr res) \<and>
      SESync_run certified_env [] (demo_opts 1 3 1 (1 / 2)) Matrix_default = Some (Inr fin) \<and>
      status res = GLOBAL_OPT \<and>
      xhat res = round_solution certified_env (problem fin) (Yopt res) \<and>
      collect round_solution_call (calls fin) = [Yopt res]) \<and>
   (\<exists>res fin. SESync imprecise_env [] (demo_opts 1 3 1 (1 / 2)) Matrix_default = Some (Inr res) \<and>
      SESync_run imprecise_env [] (demo_opts 1 3 1 (1 / 2)) Matrix_default = Some (Inr fin) \<and>
      status res = EIG_IMPRECISION \<and>
      xhat res = round_solution imprecise_env (problem fin) (Yopt res) \<and>
      collect round_solution_call (calls fin) = [Yopt res]) \<and>
   (\<exists>res fin. SESync stuck_env [] (demo_opts 1 3 1 (1 / 100000000)) Matrix_default = Some (Inr res) \<and>
      SESync_run stuck_env [] (demo_opts 1 3 1 (1 / 100000000)) Matrix_default = Some (Inr fin) \<and>
      status res = SADDLE_POINT \<and>
      xhat res = round_solution stuck_env (problem fin) (Yopt res) \<and>
      collect round_solution_call (calls fin) = [Yopt res]) \<and>
   (\<exists>res fin. SESync climbing_env [] (demo_opts 1 2 1 (1 / 2)) Matrix_default = Some (Inr res) \<and>
      SESync_run climbing_env [] (demo_opts 1 2 1 (1 / 2)) Matrix_default = Some (Inr fin) \<and>
      status res = RS_ITER_LIMIT \<and>
      xhat res = round_solution climbing_env (problem fin) (Yopt res) \<and>
      collect round_solution_call (calls fin) = [Yopt res]) \<and>
   (\<exists>res fin. SESync climbing_env [] (demo_opts_explicit 3 2 1 (1 / 2)) Matrix_default = Some (Inr res) \<and>
      SESync_run climbing_env [] (demo_opts_explicit 3 2 1 (1 / 2)) Matrix_default = Some (Inr fin) \<and>
      status res = RS_ITER_LIMIT \<and>
      xhat res = round_solution climbing_env (problem fin) (Yopt res) \<and>
      Fxhat res = evaluate_objective climbing_env (problem fin) (xhat res))"
proof -
  from run_certified obtain f1 where
    f1: "SESync_run certified_env [] (demo_opts 1 3 1 (1 / 2)) Matrix_default = Some (Inr f1)"
      "status f1 = GLOBAL_OPT"
    by blast
  from f1(1) have s1: "SESync certified_env [] (demo_opts 1 3 1 (1 / 2)) Matrix_default =
      Some (Inr (SESyncResult.truncate f1))"
    by (simp add: SESync_Inr)
  from rounding_of_final_iterate [OF s1] f1 s1 have 1: "\<exists>res fin.
      SESync certified_env [] (demo_opts 1 3 1 (1 / 2)) Matrix_default = Some (Inr res) \<and>
      SESync_run certified_env [] (demo_opts 1 3 1 (1 / 2)) Matrix_default = Some (Inr fin) \<and>
      status res = GLOBAL_OPT \<and>
      xhat res = round_solution certified_env (problem fin) (Yopt res) \<and>
      collect round_solution_call (calls fin) = [Yopt res]"
    by (auto simp: truncate_fields)
  from run_imprecise obtain f2 where
    f2: "SESync_run imprecise_env [] (demo_opts 1 3 1 (1 / 2)) Matrix_default = Some (Inr f2)"
      "status f2 = EIG_IMPRECISION"
    by blast
  from f2(1) have s2: "SESync imprecise_env [] (demo_opts 1 3 1 (1 / 2)) Matrix_default =
      Some (Inr (SESyncResult.truncate f2))"
    by (simp add: SESync_Inr)
  from rounding_of_final_iterate [OF s2] f2 s2 have 2: "\<exists>res fin.
      SESync imprecise_env [] (demo_opts 1 3 1 (1 / 2)) Matrix_default = Some (Inr res) \<and>
      SESync_run imprecise_env [] (demo_opts 1 3 1 (1 / 2)) Matrix_default = Some (Inr fin) \<and>
      status res = EIG_IMPRECISION \<and>
      xhat res = round_solution imprecise_env (problem fin) (Yopt res) \<and>
      collect round_solution_call (calls fin) = [Yopt res]"
    by (auto simp: truncate_fields)
  from run_stuck obtain f3 where
    f3: "SESync_run stuck_env [] (demo_opts 1 3 1 (1 / 100000000)) Matrix_default = Some (Inr f3)"
      "status f3 = SADDLE_POINT"
    by blast
  from f3(1) have s3: "SESync stuck_env [] (demo_opts 1 3 1 (1 / 100000000)) Matrix_default =
      Some (Inr (SESyncResult.truncate f3))"
    by (simp add: SESync_Inr)
  from rounding_of_final_iterate [OF s3] f3 s3 have 3: "\<exists>res fin.
      SESync stuck_env [] (demo_opts 1 3 1 (1 / 100000000)) Matrix_default = Some (Inr res) \<and>
      SESync_run stuck_env [] (demo_opts 1 3 1 (1 / 100000000)) Matrix_default = Some (Inr fin) \<and>
      status res = SADDLE_POINT \<and>
      xhat res = round_solution stuck_env (problem fin) (Yopt res) \<and>
      collect round_solution_call (calls fin) = [Yopt res]"
    by (auto simp: truncate_fields)
  from run_climbing obtain f4 where
    f4: "SESync_run climbing_env [] (demo_opts 1 2 1 (1 / 2)) Matrix_default = Some (Inr f4)"
      "status f4 = RS_ITER_LIMIT"
    by blast
  from f4(1) have s4: "SESync climbing_env [] (demo_opts 1 2 1 (1 / 2)) Matrix_default =
      Some (Inr (SESyncResult.truncate f4))"
    by (simp add: SESync_Inr)
  from rounding_of_final_iterate [OF s4] f4 s4 have 4: "\<exists>res fin.
      SESync climbing_env [] (demo_opts 1 2 1 (1 / 2)) Matrix_default = Some (Inr res) \<and>
      SESync_run climbing_env [] (demo_opts 1 2 1 (1 / 2)) Matrix_default = Some (Inr fin) \<and>
      status res = RS_ITER_LIMIT \<and>
      xhat res = round_solution climbing_env (problem fin) (Yopt res) \<and>
      collect round_solution_call (calls fin) = [Yopt res]"
    by (auto simp: truncate_fields)
  from run_skipped obtain f5 where
    f5: "SESync_run climbing_env [] (demo_opts_explicit 3 2 1 (1 / 2)) Matrix_default = Some (Inr f5)"
      "status f5 = RS_ITER_LIMIT"
    by blast
  from f5(1) have s5: "SESync climbing_env [] (demo_opts_explicit 3 2 1 (1 / 2)) Matrix_default =
      Some (Inr (SESyncResult.truncate f5))"
    by (simp add: SESync_Inr)
  have ex: "formulation (demo_opts_explicit 3 2 1 (1 / 2)) \<noteq> Simplified"
    by (simp add: demo_opts_explicit_def)
  from rounding_of_final_iterate [OF s5] f5 s5 ex have 5: "\<exists>res fin.
      SESync climbing_env [] (demo_opts_explicit 3 2 1 (1 / 2)) Matrix_default = Some (Inr res) \<and>
      SESync_run climbing_env [] (demo_opts_explicit 3 2 1 (1 / 2)) Matrix_default = Some (Inr fin) \<and>
      status res = RS_ITER_LIMIT \<and>
      xhat res = round_solution climbing_env (problem fin) (Yopt res) \<and>
      Fxhat res = evaluate_objective climbing_env (problem fin) (xhat res)"
    by (auto simp: truncate_fields)
  from 1 2 3 4 5 show ?thesis by blast
qed

text \<open>
  Claim C7. The iterate with which the staircase starts is \<open>Y0\<close> itself when \<open>Y0\<close> has a
  nonzero size, and then the log of the run has no initialization call; otherwise it is
  the chordal initialization of the problem at rank \<open>r0\<close> when the option is set, and a
  random sample of that problem when it is not, with that one initialization call in the
  log. When the loop is entered, the first call of the solver is seeded with this iterate.
\<close>

theorem initial_iterate_choice:
  "Y_cur (SESync_setup E ms options Y0) =
     (if msize Y0 \<noteq> 0 then Y0
      else if use_chordal_initialization options
           then chordal_initialization E
                  (set_relaxation_rank (r0 options)
                     (SESyncProblem_new ms (formulation options) (use_Cholesky options)
                        (precon options) (fresh_rank E)))
           else random_sample E
                  (set_relaxation_rank (r0 options)
                     (SESyncProblem_new ms (formulation options) (use_Cholesky options)
                        (precon options) (fresh_rank E)))) \<and>
   collect initialization_call (calls (SESync_setup E ms options Y0)) =
     (if msize Y0 \<noteq> 0 then []
      else if use_chordal_initialization options then [Call_chordal_initialization]
      else [Call_random_sample]) \<and>
   (\<forall>fin. SESync_run E ms options Y0 = Some (Inr fin) \<longrightarrow>
      collect initialization_call (calls fin) =
        (if msize Y0 \<noteq> 0 then []
         else if use_chordal_initialization options then [Call_chordal_initialization]
         else [Call_random_sample]) \<and>
      (r0 options \<le> rmax options \<longrightarrow>
         (\<exists>more. collect TNT_seed (calls fin) = Y_cur (SESync_setup E ms options Y0) # more)))"
proof (intro conjI allI impI)
  show "Y_cur (SESync_setup E ms options Y0) =
     (if msize Y0 \<noteq> 0 then Y0
      else if use_chordal_initialization options
           then chordal_initialization E
                  (set_relaxation_rank (r0 options)
                     (SESyncProblem_new ms (formulation options) (use_Cholesky options)
                        (precon options) (fresh_rank E)))
           else random_sample E
                  (set_relaxation_rank (r0 options)
                     (SESyncProblem_new ms (formulation options) (use_Cholesky options)
                        (precon options) (fresh_rank E))))"
    by (simp add: setup_fields(9) setup_fields(8))
  show "collect initialization_call (calls (SESync_setup E ms options Y0)) =
     (if msize Y0 \<noteq> 0 then []
      else if use_chordal_initialization options then [Call_chordal_initialization]
      else [Call_random_sample])"
    by (rule setup_log(7))
next
  fix fin assume run: "SESync_run E ms options Y0 = Some (Inr fin)"
  from run obtain s where
    loop: "staircase E options (r0 options) (SESync_setup E ms options Y0) = Some (Inr s)"
    and fin: "SESync_finish E options s = Inr fin"
    by (rule run_cases)
  note ff = finish_fields [OF fin]
  show "collect initialization_call (calls fin) =
        (if msize Y0 \<noteq> 0 then []
         else if use_chordal_initialization options then [Call_chordal_initialization]
         else [Call_random_sample])"
    by (simp only: ff(15) staircase_log(1) [OF loop] setup_log(7))
  assume "r0 options \<le> rmax options"
  from staircase_first_seed [OF loop this]
  show "\<exists>more. collect TNT_seed (calls fin) = Y_cur (SESync_setup E ms options Y0) # more"
    by (simp add: ff(10) setup_log(1))
qed

theorem initial_iterate_choice_witness:
  "(\<exists>fin. SESync_run climbing_env [] (demo_opts 1 2 1 (1 / 2)) demo_saddle = Some (Inr fin) \<and>
      msize demo_saddle \<noteq> 0 \<and> r0 (demo_opts 1 2 1 (1 / 2)) \<le> rmax (demo_opts 1 2 1 (1 / 2)) \<and>
      collect initialization_call (calls fin) = [] \<and>
      hd (collect TNT_seed (calls fin)) = demo_saddle) \<and>
   (\<exists>fin. SESync_run climbing_env [] (demo_opts 1 2 1 (1 / 2)) Matrix_default = Some (Inr fin) \<and>
      msize Matrix_default = 0 \<and> use_chordal_initialization (demo_opts 1 2 1 (1 / 2)) \<and>
      collect initialization_call (calls fin) = [Call_chordal_initialization] \<and>
      hd (collect TNT_seed (calls fin)) = \<lparr>ncols = 2, row_data = [[0, 0]]\<rparr>) \<and>
   (\<exists>fin. SESync_run climbing_env [] (demo_opts_random 1 2 1 (1 / 2)) Matrix_default = Some (Inr fin) \<and>
      \<not> use_chordal_initialization (demo_opts_random 1 2 1 (1 / 2)) \<and>
      collect initialization_call (calls fin) = [Call_random_sample] \<and>
      hd (collect TNT_seed (calls fin)) = \<lparr>ncols = 2, row_data = [[1, 1]]\<rparr>)"
proof -
  have e1: "\<exists>fin. SESync_run climbing_env [] (demo_opts 1 2 1 (1 / 2)) demo_saddle = Some (Inr fin)"
    by (simp add: demo_defs demo_saddle_def model_defs line_search.simps staircase.simps)
  have e2: "\<exists>fin. SESync_run climbing_env [] (demo_opts 1 2 1 (1 / 2)) Matrix_default = Some (Inr fin)"
    using run_climbing by blast
  have e3: "\<exists>fin. SESync_run climbing_env [] (demo_opts_random 1 2 1 (1 / 2)) Matrix_default = Some (Inr fin)"
    by (simp add: demo_defs demo_opts_random_def model_defs line_search.simps staircase.simps)
  have le: "r0 (demo_opts 1 2 1 (1 / 2)) \<le> rmax (demo_opts 1 2 1 (1 / 2))"
    "r0 (demo_opts_random 1 2 1 (1 / 2)) \<le> rmax (demo_opts_random 1 2 1 (1 / 2))"
    by (simp_all add: demo_opts_def demo_opts_random_def)
  have given: "msize demo_saddle \<noteq> 0" "msize Matrix_default = 0"
    by (simp_all add: msize_def nrows_def demo_saddle_def Matrix_default_def)
  have ch: "use_chordal_initialization (demo_opts 1 2 1 (1 / 2))"
    "\<not> use_chordal_initialization (demo_opts_random 1 2 1 (1 / 2))"
    by (simp_all add: demo_opts_def demo_opts_random_def)
  have y1: "Y_cur (SESync_setup climbing_env [] (demo_opts 1 2 1 (1 / 2)) Matrix_default) =
      \<lparr>ncols = 2, row_data = [[0, 0]]\<rparr>"
    by (simp add: demo_defs model_defs numeral_2_eq_2)
  have y2: "Y_cur (SESync_setup climbing_env [] (demo_opts_random 1 2 1 (1 / 2)) Matrix_default) =
      \<lparr>ncols = 2, row_data = [[1, 1]]\<rparr>"
    by (simp add: demo_defs demo_opts_random_def model_defs)
  have y3: "Y_cur (SESync_setup climbing_env [] (demo_opts 1 2 1 (1 / 2)) demo_saddle) = demo_saddle"
    by (simp add: demo_defs demo_saddle_def model_defs)
  from initial_iterate_choice [of climbing_env "[]" "demo_opts 1 2 1 (1 / 2)" demo_saddle]
    e1 le given y3
  have 1: "\<exists>fin. SESync_run climbing_env [] (demo_opts 1 2 1 (1 / 2)) demo_saddle = Some (Inr fin) \<and>
      msize demo_saddle \<noteq> 0 \<and> r0 (demo_opts 1 2 1 (1 / 2)) \<le> rmax (demo_opts 1 2 1 (1 / 2)) \<and>
      collect initialization_call (calls fin) = [] \<and>
      hd (collect TNT_seed (calls fin)) = demo_saddle"
    by auto
  from initial_iterate_choice [of climbing_env "[]" "demo_opts 1 2 1 (1 / 2)" Matrix_default]
    e2 le given ch y1
  have 2: "\<exists>fin. SESync_run climbing_env [] (demo_opts 1 2 1 (1 / 2)) Matrix_default = Some (Inr fin) \<and>
      msize Matrix_default = 0 \<and> use_chordal_initialization (demo_opts 1 2 1 (1 / 2)) \<and>
      collect initialization_call (calls fin) = [Call_chordal_initialization] \<and>
      hd (collect TNT_seed (calls fin)) = \<lparr>ncols = 2, row_data = [[0, 0]]\<rparr>"
    by auto
  from initial_iterate_choice [of climbing_env "[]" "demo_opts_random 1 2 1 (1 / 2)" Matrix_default]
    e3 le given ch y2
  have 3: "\<exists>fin. SESync_run climbing_env [] (demo_opts_random 1 2 1 (1 / 2)) Matrix_default = Some (Inr fin) \<and>
      \<not> use_chordal_initialization (demo_opts_random 1 2 1 (1 / 2)) \<and>
      collect initialization_call (calls fin) = [Call_random_sample] \<and>
      hd (collect TNT_seed (calls fin)) = \<lparr>ncols = 2, row_data = [[1, 1]]\<rparr>"
    by auto
  from 1 2 3 show ?thesis by blast
qed



text \<open>
  Claim C9. In the result of a run, the traces of objective values, of gradient norms and
  of elapsed times have one entry per call of the solver, that is per level solved, and
  the traces of minimum eigenvalues and of their computation times have one entry per
  eigenvalue computation that converged; every level solved has one eigenvalue
  computation. With the status \<open>EIG_IMPRECISION\<close> the eigenvalue traces are one entry
  shorter than the solver traces, and with any other status they have the same length.
\<close>

theorem trace_lengths:
  assumes "SESync E ms options Y0 = Some (Inr res)"
  shows "\<exists>fin. SESync_run E ms options Y0 = Some (Inr fin) \<and>
           length (function_values res) = length (collect TNT_output (calls fin)) \<and>
           length (gradient_norms res) = length (collect TNT_output (calls fin)) \<and>
           length (elapsed_optimization_times res) = length (collect TNT_output (calls fin)) \<and>
           length (collect min_eig_result (calls fin)) = length (collect TNT_output (calls fin)) \<and>
           length (minimum_eigenvalues res) =
             length (filter fst (collect min_eig_result (calls fin))) \<and>
           length (minimum_eigenvalue_computation_times res) =
             length (filter fst (collect min_eig_result (calls fin))) \<and>
           (status res = EIG_IMPRECISION \<longrightarrow>
              length (function_values res) = Suc (length (minimum_eigenvalues res)) \<and>
              length (function_values res) =
                Suc (length (minimum_eigenvalue_computation_times res))) \<and>
           (status res \<noteq> EIG_IMPRECISION \<longrightarrow>
              length (function_values res) = length (minimum_eigenvalues res) \<and>
              length (function_values res) = length (minimum_eigenvalue_computation_times res))"
proof -
  from assms obtain fin where run: "SESync_run E ms options Y0 = Some (Inr fin)"
    and res: "res = SESyncResult.truncate fin"
    by (auto simp: SESync_Inr)
  note post = run_post [OF run]
  from post have
    fv: "length (function_values fin) = length (collect TNT_output (calls fin))"
    and gn: "length (gradient_norms fin) = length (collect TNT_output (calls fin))"
    and et: "length (elapsed_optimization_times fin) = length (collect TNT_output (calls fin))"
    and rs: "length (collect min_eig_result (calls fin)) = length (collect TNT_output (calls fin))"
    and me: "length (minimum_eigenvalues fin) = length (filter fst (collect min_eig_result (calls fin)))"
    and mt: "length (minimum_eigenvalue_computation_times fin) =
             length (filter fst (collect min_eig_result (calls fin)))"
    by (simp_all add: staircase_post_def)
  note tl = post_lengths [OF post]
  have a: "status fin = EIG_IMPRECISION \<longrightarrow>
              length (function_values fin) = Suc (length (minimum_eigenvalues fin)) \<and>
              length (function_values fin) = Suc (length (minimum_eigenvalue_computation_times fin))"
    using tl(1) by (simp add: fv me mt rs [symmetric])
  have b: "status fin \<noteq> EIG_IMPRECISION \<longrightarrow>
              length (function_values fin) = length (minimum_eigenvalues fin) \<and>
              length (function_values fin) = length (minimum_eigenvalue_computation_times fin)"
    using tl(2) by (simp add: fv me mt rs [symmetric])
  show ?thesis
    using run fv gn et rs me mt a b
    by (intro exI [of _ fin]) (simp add: res truncate_fields)
qed

theorem trace_lengths_witness:
  "(\<exists>res fin. SESync imprecise_env [] (demo_opts 1 3 1 (1 / 2)) Matrix_default = Some (Inr res) \<and>
      SESync_run imprecise_env [] (demo_opts 1 3 1 (1 / 2)) Matrix_default = Some (Inr fin) \<and>
      status res = EIG_IMPRECISION \<and>
      length (function_values res) = 2 \<and> length (minimum_eigenvalues res) = 1 \<and>
      length (collect TNT_output (calls fin)) = 2 \<and>
      length (filter fst (collect min_eig_result (calls fin))) = 1) \<and>
   (\<exists>res fin. SESync certified_env [] (demo_opts 1 3 1 (1 / 2)) Matrix_default = Some (Inr res) \<and>
      SESync_run certified_env [] (demo_opts 1 3 1 (1 / 2)) Matrix_default = Some (Inr fin) \<and>
      status res = GLOBAL_OPT \<and>
      length (function_values res) = 2 \<and> length (minimum_eigenvalues res) = 2 \<and>
      length (collect TNT_output (calls fin)) = 2 \<and>
      length (filter fst (collect min_eig_result (calls fin))) = 2)"
proof -
  from run_imprecise obtain f1 where
    f1: "SESync_run imprecise_env [] (demo_opts 1 3 1 (1 / 2)) Matrix_default = Some (Inr f1)"
      "status f1 = EIG_IMPRECISION" "minimum_eigenvalues f1 = [- 1]" "length (function_values f1) = 2"
    by blast
  from f1(1) have s1: "SESync imprecise_env [] (demo_opts 1 3 1 (1 / 2)) Matrix_default =
      Some (Inr (SESyncResult.truncate f1))"
    by (simp add: SESync_Inr)
  from trace_lengths [OF s1] f1 s1 have 1: "\<exists>res fin.
      SESync imprecise_env [] (demo_opts 1 3 1 (1 / 2)) Matrix_default = Some (Inr res) \<and>
      SESync_run imprecise_env [] (demo_opts 1 3 1 (1 / 2)) Matrix_default = Some (Inr fin) \<and>
      status res = EIG_IMPRECISION \<and>
      length (function_values res) = 2 \<and> length (minimum_eigenvalues res) = 1 \<and>
      length (collect TNT_output (calls fin)) = 2 \<and>
      length (filter fst (collect min_eig_result (calls fin))) = 1"
    by (auto simp: truncate_fields)
  from run_certified obtain f2 where
    f2: "SESync_run certified_env [] (demo_opts 1 3 1 (1 / 2)) Matrix_default = Some (Inr f2)"
      "status f2 = GLOBAL_OPT" "minimum_eigenvalues f2 = [- 1, 0]" "length (function_values f2) = 2"
    by blast
  from f2(1) have s2: "SESync certified_env [] (demo_opts 1 3 1 (1 / 2)) Matrix_default =
      Some (Inr (SESyncResult.truncate f2))"
    by (simp add: SESync_Inr)
  from trace_lengths [OF s2] f2 s2 have 2: "\<exists>res fin.
      SESync certified_env [] (demo_opts 1 3 1 (1 / 2)) Matrix_default = Some (Inr res) \<and>
      SESync_run certified_env [] (demo_opts 1 3 1 (1 / 2)) Matrix_default = Some (Inr fin) \<and>
      status res = GLOBAL_OPT \<and>
      length (function_values res) = 2 \<and> length (minimum_eigenvalues res) = 2 \<and>
      length (collect TNT_output (calls fin)) = 2 \<and>
      length (filter fst (collect min_eig_result (calls fin))) = 2"
    by (auto simp: truncate_fields)
  from 1 2 show ?thesis by blast
qed

text \<open>
  Claim C10. With a positive eigenvalue tolerance no run ends in the division by zero, and
  in every run that returns, each call of \<open>escape_saddle\<close> was made with an eigenvalue at
  or below the negated tolerance, so with a positive absolute value. A level ends in the
  division by zero only after a converged eigenvalue computation that reported 0, with a
  tolerance that is not positive; and with the tolerance 0 there is a run that ends so.
\<close>

theorem escape_division_guarded:
  "(0 < min_eig_num_tol options \<longrightarrow>
      SESync_run E ms options Y0 \<noteq> Some (Inl DivisionByZero) \<and>
      (\<forall>fin. SESync_run E ms options Y0 = Some (Inr fin) \<longrightarrow>
         list_all (\<lambda>lam. lam \<le> - min_eig_num_tol options \<and> 0 < \<bar>lam\<bar>)
           (collect escape_lambda (calls fin)))) \<and>
   (\<forall>r s. staircase_level E options r s = Inl DivisionByZero \<longrightarrow>
      (\<exists>s1. check_second_order E options (run_TNT E options s) = (True, s1) \<and>
            lambda_min s1 = 0 \<and> min_eig_num_tol options \<le> 0)) \<and>
   (\<exists>E' ms' options' Y0'. min_eig_num_tol options' = 0 \<and>
      SESync_run E' ms' options' Y0' = Some (Inl DivisionByZero))"
proof (intro conjI impI allI)
  assume pos: "0 < min_eig_num_tol options"
  show "SESync_run E ms options Y0 \<noteq> Some (Inl DivisionByZero)"
  proof
    assume run: "SESync_run E ms options Y0 = Some (Inl DivisionByZero)"
    show False
    proof (cases "staircase E options (r0 options) (SESync_setup E ms options Y0)")
      case None
      with run show False by (simp add: SESync_run_def)
    next
      case (Some y)
      show False
      proof (cases y)
        case (Inl e)
        with run Some have "staircase E options (r0 options) (SESync_setup E ms options Y0) =
            Some (Inl DivisionByZero)"
          by (simp add: SESync_run_def)
        with staircase_no_division [OF pos] show False by blast
      next
        case (Inr s)
        with run Some have "SESync_finish E options s = Inl DivisionByZero"
          by (simp add: SESync_run_def)
        from finish_failure [OF this] show False by simp
      qed
    qed
  qed
  fix fin assume run: "SESync_run E ms options Y0 = Some (Inr fin)"
  from run_post [OF run]
  have "list_all (\<lambda>lam. lam \<le> - min_eig_num_tol options) (collect escape_lambda (calls fin))"
    by (simp add: staircase_post_def)
  then show "list_all (\<lambda>lam. lam \<le> - min_eig_num_tol options \<and> 0 < \<bar>lam\<bar>)
           (collect escape_lambda (calls fin))"
    using pos by (auto simp: list_all_iff)
next
  fix r s assume "staircase_level E options r s = Inl DivisionByZero"
  then show "\<exists>s1. check_second_order E options (run_TNT E options s) = (True, s1) \<and>
            lambda_min s1 = 0 \<and> min_eig_num_tol options \<le> 0"
    by (rule staircase_level_division)
next
  have "min_eig_num_tol (demo_opts 1 2 0 (1 / 2)) = 0"
    by (simp add: demo_opts_def)
  with run_degenerate
  show "\<exists>E' ms' options' Y0'. min_eig_num_tol options' = 0 \<and>
      SESync_run E' ms' options' Y0' = Some (Inl DivisionByZero)"
    by blast
qed

theorem escape_division_guarded_witness:
  "0 < min_eig_num_tol (demo_opts 1 2 1 (1 / 2)) \<and>
   SESync_run climbing_env [] (demo_opts 1 2 1 (1 / 2)) Matrix_default \<noteq> Some (Inl DivisionByZero) \<and>
   (\<exists>fin. SESync_run climbing_env [] (demo_opts 1 2 1 (1 / 2)) Matrix_default = Some (Inr fin) \<and>
      collect escape_lambda (calls fin) = [- 1, - 1] \<and>
      list_all (\<lambda>lam. lam \<le> - min_eig_num_tol (demo_opts 1 2 1 (1 / 2)) \<and> 0 < \<bar>lam\<bar>)
        (collect escape_lambda (calls fin))) \<and>
   min_eig_num_tol (demo_opts 1 2 0 (1 / 2)) = 0 \<and>
   staircase_level degenerate_env (demo_opts 1 2 0 (1 / 2)) 1
     (SESync_setup degenerate_env [] (demo_opts 1 2 0 (1 / 2)) Matrix_default) =
     Inl DivisionByZero \<and>
   (\<exists>s1. check_second_order degenerate_env (demo_opts 1 2 0 (1 / 2))
           (run_TNT degenerate_env (demo_opts 1 2 0 (1 / 2))
              (SESync_setup degenerate_env [] (demo_opts 1 2 0 (1 / 2)) Matrix_default)) =
           (True, s1) \<and>
         lambda_min s1 = 0)"
proof -
  have pos: "0 < min_eig_num_tol (demo_opts 1 2 1 (1 / 2))"
    by (simp add: demo_opts_def)
  have zero: "min_eig_num_tol (demo_opts 1 2 0 (1 / 2)) = 0"
    by (simp add: demo_opts_def)
  note guarded = escape_division_guarded [of "demo_opts 1 2 1 (1 / 2)" climbing_env "[]" Matrix_default]
  note unguarded = escape_division_guarded [of "demo_opts 1 2 0 (1 / 2)" degenerate_env "[]" Matrix_default]
  have ev: "\<exists>fin. SESync_run climbing_env [] (demo_opts 1 2 1 (1 / 2)) Matrix_default = Some (Inr fin) \<and>
      collect escape_lambda (calls fin) = [- 1, - 1]"
    by (simp add: demo_defs model_defs line_search.simps staircase.simps)
  have lv: "staircase_level degenerate_env (demo_opts 1 2 0 (1 / 2)) 1
     (SESync_setup degenerate_env [] (demo_opts 1 2 0 (1 / 2)) Matrix_default) =
     Inl DivisionByZero"
    by (simp add: demo_defs degenerate_env_def zero_eigenvalue_def model_defs line_search.simps)
  from guarded pos have 1:
    "SESync_run climbing_env [] (demo_opts 1 2 1 (1 / 2)) Matrix_default \<noteq> Some (Inl DivisionByZero)"
    by blast
  from guarded pos ev have 2:
    "\<exists>fin. SESync_run climbing_env [] (demo_opts 1 2 1 (1 / 2)) Matrix_default = Some (Inr fin) \<and>
      collect escape_lambda (calls fin) = [- 1, - 1] \<and>
      list_all (\<lambda>lam. lam \<le> - min_eig_num_tol (demo_opts 1 2 1 (1 / 2)) \<and> 0 < \<bar>lam\<bar>)
        (collect escape_lambda (calls fin))"
    by blast
  from unguarded lv have 3:
    "\<exists>s1. check_second_order degenerate_env (demo_opts 1 2 0 (1 / 2))
           (run_TNT degenerate_env (demo_opts 1 2 0 (1 / 2))
              (SESync_setup degenerate_env [] (demo_opts 1 2 0 (1 / 2)) Matrix_default)) =
           (True, s1) \<and>
         lambda_min s1 = 0"
    by blast
  from pos zero 1 2 3 lv show ?thesis
    by blast
qed

end
